theory Spec2Isabelle
  imports Main "HOL-Library.Word"
begin

section \<open>The KMS backend of the developer portal (src/web/src/backend/kms.ts)\<close>

text \<open>
  The file talks to Amazon KMS through \<^verbatim>\<open>client.send(new XCommand(...))\<close>, reads the
  process environment, the clock, \<^verbatim>\<open>JSON.stringify\<close>, the JWK store and writes to
  \<^verbatim>\<open>console.error\<close>. The embedding makes each of these explicit:
  \<^item> a byte array (\<^verbatim>\<open>Uint8Array\<close>, \<^verbatim>\<open>Buffer\<close>) is a list of 8-bit words;
  \<^item> a JavaScript string is a \<open>string\<close>, read as the bytes of its UTF-8 encoding;
  \<^item> \<^verbatim>\<open>undefined\<close> is \<open>None\<close>;
  \<^item> a rejected promise or a thrown value is \<open>Inl\<close> of an \<open>error\<close>;
  \<^item> every function returns a \<open>run\<close>: how the call completed, the commands it sent to
    KMS in order, and the lines it wrote with \<^verbatim>\<open>console.error\<close>.
\<close>

subsection \<open>Values\<close>

type_synonym byte = "8 word"

datatype error = TypeError | RangeError | ServiceError string

datatype 'a completion = Returned 'a | Thrown error

text \<open>The commands of @aws-sdk/client-kms that the file constructs, with the fields it sets.\<close>

datatype command =
    CreateKeyCommand (KeySpec: string) (KeyUsage: string) (Description: string)
      (Policy: string) (Tags: "(string \<times> string) list")
  | GetPublicKeyCommand string
  | DescribeKeyCommand string
  | SignCommand (SignKeyId: string) (Message: "byte list") (MessageType: string)
      (SigningAlgorithm: string)
  | ScheduleKeyDeletionCommand (DeletionKeyId: string) (PendingWindowInDays: nat)

text \<open>
  A response object: the file only ever reads \<^verbatim>\<open>KeyMetadata?.KeyId\<close>,
  \<^verbatim>\<open>KeyMetadata?.Enabled\<close>, \<^verbatim>\<open>PublicKey\<close> and \<^verbatim>\<open>Signature\<close>; each may be absent.
\<close>

record key_metadata =
  KeyId :: "string option"
  Enabled :: "bool option"

record response =
  KeyMetadata :: "key_metadata option"
  PublicKey :: "byte list option"
  Signature :: "byte list option"

text \<open>
  \<^verbatim>\<open>client.send\<close>: the promise rejects (\<open>Inl\<close>) or resolves to a response object, or to
  \<^verbatim>\<open>undefined\<close> (which \<^verbatim>\<open>response?.Signature\<close> allows for).
\<close>

type_synonym client = "command \<Rightarrow> error + response option"

record 'a run =
  outcome :: "'a completion"
  sent :: "command list"
  logged :: "(string \<times> error) list"

text \<open>
  Modelled from the spec: \<^verbatim>\<open>retrieveJWK\<close> of ./jwks is not part of the sources. The spec
  gives its interface as \<^verbatim>\<open>retrieveJWK(kid) \<rightarrow> {kmsKeyId, active}\<close>, a lookup that can fail;
  the caller destructures the KMS key id under the name \<^verbatim>\<open>kms_id\<close>.
\<close>

record jwk =
  kms_id :: string
  active :: bool

text \<open>
  A dayjs instant wraps a \<^verbatim>\<open>Date\<close>: it is the time value of that date, in milliseconds since
  the epoch, or \<open>None\<close> when the date is invalid (its time value is \<^verbatim>\<open>NaN\<close>).
\<close>

type_synonym dayjs = "int option"

text \<open>
  What the file takes from its surroundings. \<open>'j\<close> is the type of the header and payload
  objects (\<^verbatim>\<open>Record<string, any>\<close>).
  \<^item> \<open>JSON_stringify\<close>: \<^verbatim>\<open>JSON.stringify\<close>, which throws on values it cannot serialise;
  \<^item> \<open>header_kid\<close>: the property read \<^verbatim>\<open>header.kid\<close>;
  \<^item> \<open>AWS_KMS_ROLE_ARN\<close>: \<^verbatim>\<open>process.env.AWS_KMS_ROLE_ARN\<close>;
  \<^item> \<open>JWK_TIME_TO_LIVE\<close>: the constant of src/lib/constants, not part of the sources;
  \<^item> \<open>dayjs_now\<close> and \<open>dayjs_add_day\<close>: \<^verbatim>\<open>dayjs()\<close> and \<^verbatim>\<open>.add(n, "day")\<close>;
  \<^item> \<open>Date_now_toISOString\<close>: \<^verbatim>\<open>new Date().toISOString()\<close>.
\<close>

record 'j platform =
  JSON_stringify :: "'j \<Rightarrow> error + string"
  header_kid :: "'j \<Rightarrow> string option"
  retrieveJWK :: "string option \<Rightarrow> error + jwk"
  AWS_KMS_ROLE_ARN :: "string option"
  JWK_TIME_TO_LIVE :: int
  dayjs_now :: dayjs
  dayjs_add_day :: "dayjs \<Rightarrow> int \<Rightarrow> dayjs"
  Date_now_toISOString :: string

subsection \<open>Strings and base64\<close>

text \<open>\<^verbatim>\<open>Buffer.from(string)\<close> and the TextEncoder: the UTF-8 bytes of a string.\<close>

definition utf8_encode :: "string \<Rightarrow> byte list" where
  "utf8_encode s = map (\<lambda>c. of_nat (of_char c)) s"

text \<open>Interpolation \<^verbatim>\<open>${v}\<close> of a possibly undefined string in a template literal.\<close>

definition interpolate :: "string option \<Rightarrow> string" where
  "interpolate v = (case v of None \<Rightarrow> ''undefined'' | Some s \<Rightarrow> s)"

text \<open>\<^verbatim>\<open>s.replace(/c/g, r)\<close> for a pattern that is a single character.\<close>

definition replace_all :: "char \<Rightarrow> string \<Rightarrow> string \<Rightarrow> string" where
  "replace_all c r s = concat (map (\<lambda>x. if x = c then r else [x]) s)"

text \<open>\<^verbatim>\<open>s.split(c)\<close> for a single-character separator.\<close>

fun split_on :: "char \<Rightarrow> string \<Rightarrow> string list" where
  "split_on c [] = [[]]"
| "split_on c (x # xs) =
     (if x = c then [] # split_on c xs
      else (case split_on c xs of [] \<Rightarrow> [[x]] | seg # segs \<Rightarrow> (x # seg) # segs))"

definition b64_alphabet :: string where
  "b64_alphabet = ''ABCDEFGHIJKLMNOPQRSTUVWXYZabcdefghijklmnopqrstuvwxyz0123456789+/''"

definition b64url_alphabet :: string where
  "b64url_alphabet = ''ABCDEFGHIJKLMNOPQRSTUVWXYZabcdefghijklmnopqrstuvwxyz0123456789-_''"

text \<open>
  The 6-bit groups of a byte sequence (RFC 4648): three bytes give four groups; a last
  group of one or two bytes is filled with zero bits and gives two or three.
\<close>

fun sextets :: "byte list \<Rightarrow> nat list" where
  "sextets (a # b # c # rest) =
     (let n = unat a * 65536 + unat b * 256 + unat c
      in [n div 262144, n div 4096 mod 64, n div 64 mod 64, n mod 64] @ sextets rest)"
| "sextets [a, b] =
     (let n = unat a * 1024 + unat b * 4 in [n div 4096, n div 64 mod 64, n mod 64])"
| "sextets [a] = (let n = unat a * 16 in [n div 64, n mod 64])"
| "sextets [] = []"

text \<open>\<^verbatim>\<open>Buffer.from(bytes).toString("base64")\<close>: the standard alphabet, padded with \<^verbatim>\<open>=\<close>.\<close>

definition base64_encode :: "byte list \<Rightarrow> string" where
  "base64_encode bs =
     map (\<lambda>s. b64_alphabet ! s) (sextets bs)
     @ replicate ((3 - length bs mod 3) mod 3) (CHR ''='')"

text \<open>
  Modelled from the spec: \<^verbatim>\<open>base64url.encode\<close> is imported from the jose package, which is
  not part of the sources. The spec has it as unpadded URL-safe base64 (\<^verbatim>\<open>+\<close> to \<^verbatim>\<open>-\<close>,
  \<^verbatim>\<open>/\<close> to \<^verbatim>\<open>_\<close>, \<^verbatim>\<open>=\<close> removed), which is how jose derives it from the base64 text.
\<close>

definition base64url_encode :: "byte list \<Rightarrow> string" where
  "base64url_encode bs =
     replace_all (CHR ''/'') ''_''
       (replace_all (CHR ''+'') ''-'' (replace_all (CHR ''='') '''' (base64_encode bs)))"

text \<open>
  The decoder that a verifier applies to a segment: characters outside the URL-safe
  alphabet and a dangling single character are rejected.
\<close>

fun index_of :: "'a \<Rightarrow> 'a list \<Rightarrow> nat option" where
  "index_of x [] = None"
| "index_of x (y # ys) = (if x = y then Some 0 else map_option Suc (index_of x ys))"

fun unsextets :: "nat list \<Rightarrow> byte list option" where
  "unsextets (p # q # r # s # rest) =
     (let n = p * 262144 + q * 4096 + r * 64 + s
      in map_option (\<lambda>bs. of_nat (n div 65536) # of_nat (n div 256) # of_nat n # bs)
           (unsextets rest))"
| "unsextets [p, q, r] =
     (let n = p * 4096 + q * 64 + r in Some [of_nat (n div 1024), of_nat (n div 4)])"
| "unsextets [p, q] = (let n = p * 64 + q in Some [of_nat (n div 16)])"
| "unsextets [p] = None"
| "unsextets [] = Some []"

definition base64url_decode :: "string \<Rightarrow> byte list option" where
  "base64url_decode s =
     (case those (map (\<lambda>c. index_of c b64url_alphabet) s) of
        None \<Rightarrow> None
      | Some ss \<Rightarrow> unsextets ss)"

text \<open>A base64 body: characters of the standard alphabet, then padding, in groups of four.\<close>

definition valid_base64 :: "string \<Rightarrow> bool" where
  "valid_base64 s =
     (length s mod 4 = 0 \<and>
      (let body = takeWhile (\<lambda>c. c \<noteq> CHR ''='') s; pad = dropWhile (\<lambda>c. c \<noteq> CHR ''='') s
       in list_all (\<lambda>c. c \<in> set b64_alphabet) body \<and> length pad \<le> 2
          \<and> list_all (\<lambda>c. c = CHR ''='') pad))"

subsection \<open>toISOString\<close>

text \<open>
  Modelled from the spec: \<^verbatim>\<open>toISOString\<close> of dayjs is not part of the sources. The spec has
  the instant rendered in ISO-8601, in UTC, with millisecond precision; dayjs hands the
  call to \<^verbatim>\<open>Date.prototype.toISOString\<close>, whose text is \<^verbatim>\<open>YYYY-MM-DDTHH:mm:ss.sssZ\<close>, with a
  sign and six digits for a year outside 0 to 9999, and which throws a RangeError on an
  invalid date. A time value lies within 8.64e15 milliseconds of the epoch.
\<close>

text \<open>
  The day, month and year of a day number (days since 1970-01-01) in the proleptic
  Gregorian calendar. Days are counted from a 1 March in cycles of 400 years, so that a
  leap day ends its year: a cycle has 146097 days, a century 36524, four years 1461.
\<close>

definition civil_from_days :: "int \<Rightarrow> int \<times> int \<times> int" where
  "civil_from_days z =
     (let shifted = z + 719468;
          era = shifted div 146097;
          doe = shifted mod 146097;
          centuries = min 3 (doe div 36524);
          doc = doe - centuries * 36524;
          quads = doc div 1461;
          doq = doc mod 1461;
          years = min 3 (doq div 365);
          doy = doq - years * 365;
          mp = (5 * doy + 2) div 153;
          day = doy - (153 * mp + 2) div 5 + 1;
          month = (if mp < 10 then mp + 3 else mp - 9);
          year = era * 400 + centuries * 100 + quads * 4 + years + (if month \<le> 2 then 1 else 0)
      in (year, month, day))"

text \<open>
  The inverse, by which a reader of the text finds the day number again.
\<close>

definition days_from_civil :: "int \<times> int \<times> int \<Rightarrow> int" where
  "days_from_civil ymd =
     (case ymd of (y, m, d) \<Rightarrow>
        let y' = y - (if m \<le> 2 then 1 else 0);
            era = y' div 400;
            yoe = y' mod 400;
            mp = (if 2 < m then m - 3 else m + 9);
            doy = (153 * mp + 2) div 5 + d - 1;
            doe = (yoe div 100) * 36524 + (yoe mod 100 div 4) * 1461 + (yoe mod 4) * 365 + doy
        in era * 146097 + doe - 719468)"

text \<open>Decimal digits, in a field of fixed width.\<close>

definition digit_char :: "nat \<Rightarrow> char" where
  "digit_char d = ''0123456789'' ! d"

fun digits :: "nat \<Rightarrow> nat \<Rightarrow> string" where
  "digits 0 n = []"
| "digits (Suc w) n = digits w (n div 10) @ [digit_char (n mod 10)]"

definition year_text :: "int \<Rightarrow> string" where
  "year_text y =
     (if 0 \<le> y \<and> y \<le> 9999 then digits 4 (nat y)
      else (if y < 0 then ''-'' else ''+'') @ digits 6 (nat \<bar>y\<bar>))"

definition clock_text :: "int \<Rightarrow> string" where
  "clock_text ms =
     digits 2 (nat (ms div 3600000)) @ '':'' @ digits 2 (nat (ms div 60000 mod 60)) @ '':''
     @ digits 2 (nat (ms div 1000 mod 60)) @ ''.'' @ digits 3 (nat (ms mod 1000))"

definition iso_text :: "int \<Rightarrow> string" where
  "iso_text t =
     (case civil_from_days (t div 86400000) of
        (year, month, day) \<Rightarrow>
          year_text year @ ''-'' @ digits 2 (nat month) @ ''-'' @ digits 2 (nat day) @ ''T''
          @ clock_text (t mod 86400000) @ ''Z'')"

definition toISOString :: "int option \<Rightarrow> error + string" where
  "toISOString instant =
     (case instant of
        None \<Rightarrow> Inl RangeError
      | Some t \<Rightarrow> if \<bar>t\<bar> \<le> 8640000000000000 then Inr (iso_text t) else Inl RangeError)"

subsection \<open>kmsKeyPolicy\<close>

text \<open>
  The template literal of the source, line by line. The two interpolations are the role
  ARN of the environment and \<^verbatim>\<open>expire_at.toISOString()\<close>; when the latter throws, so does
  the function.
\<close>

definition policy_text :: "string \<Rightarrow> string \<Rightarrow> string" where
  \<open>policy_text arn instant =
     ''{\<newline>'' @
     ''  "Version": "2012-10-17",\<newline>'' @
     ''  "Id": "key-default-1",\<newline>'' @
     ''  "Statement": [\<newline>'' @
     ''    {\<newline>'' @
     ''      "Sid": "AllowAccessUntilExpirationDate",\<newline>'' @
     ''      "Effect": "Allow",\<newline>'' @
     ''      "Principal": {\<newline>'' @
     ''        "AWS": "'' @ arn @ ''"\<newline>'' @
     ''      },\<newline>'' @
     ''      "Action": [\<newline>'' @
     ''        "kms:CreateKey",\<newline>'' @
     ''        "kms:TagResource",\<newline>'' @
     ''        "kms:DescribeKey",\<newline>'' @
     ''        "kms:PutKeyPolicy",\<newline>'' @
     ''        "kms:GetPublicKey",\<newline>'' @
     ''        "kms:Sign",\<newline>'' @
     ''        "kms:Verify",\<newline>'' @
     ''        "kms:ScheduleKeyDeletion"\<newline>'' @
     ''      ],\<newline>'' @
     ''      "Resource": "*",\<newline>'' @
     ''      "Condition": {\<newline>'' @
     ''        "DateLessThan": {\<newline>'' @
     ''          "aws:CurrentTime": "'' @ instant @ ''"\<newline>'' @
     ''        }\<newline>'' @
     ''      }\<newline>'' @
     ''    }\<newline>'' @
     ''  ]\<newline>'' @
     ''}''\<close>

definition kmsKeyPolicy :: "'j platform \<Rightarrow> dayjs \<Rightarrow> error + string" where
  "kmsKeyPolicy pf expire_at =
     (case toISOString expire_at of
        Inl e \<Rightarrow> Inl e
      | Inr instant \<Rightarrow> Inr (policy_text (interpolate (AWS_KMS_ROLE_ARN pf)) instant))"

subsection \<open>createKMSKey\<close>

record create_key_result =
  keyId :: string
  publicKey :: string

definition pem_header :: string where
  "pem_header = ''-----BEGIN PUBLIC KEY-----''"

definition pem_footer :: string where
  "pem_footer = ''-----END PUBLIC KEY-----''"

text \<open>
  \<^verbatim>\<open>if (keyId)\<close> is false for \<^verbatim>\<open>undefined\<close> and for the empty string; \<^verbatim>\<open>if (PublicKey)\<close>
  is false for \<^verbatim>\<open>undefined\<close> only, a byte array being an object whatever its length.
  Destructuring an \<^verbatim>\<open>undefined\<close> response throws a TypeError inside the \<^verbatim>\<open>try\<close>.
\<close>

definition createKMSKey ::
  "client \<Rightarrow> 'j platform \<Rightarrow> string \<Rightarrow> create_key_result option run" where
  "createKMSKey client pf alg =
     (let caught = ''Error creating key:'' in
      (case kmsKeyPolicy pf (dayjs_add_day pf (dayjs_now pf) (JWK_TIME_TO_LIVE pf)) of
         Inl e \<Rightarrow> \<lparr>outcome = Returned None, sent = [], logged = [(caught, e)]\<rparr>
       | Inr policy \<Rightarrow>
          (let create =
                 CreateKeyCommand alg ''SIGN_VERIFY''
                   (''Developer Portal JWK for Sign in with Worldcoin. Created: ''
                      @ Date_now_toISOString pf)
                   policy [(''app'', ''developer-portal'')]
           in (case client create of
                 Inl e \<Rightarrow>
                   \<lparr>outcome = Returned None, sent = [create], logged = [(caught, e)]\<rparr>
               | Inr None \<Rightarrow>
                   \<lparr>outcome = Returned None, sent = [create],
                    logged = [(caught, TypeError)]\<rparr>
               | Inr (Some created) \<Rightarrow>
                  (case Option.bind (KeyMetadata created) KeyId of
                     None \<Rightarrow> \<lparr>outcome = Returned None, sent = [create], logged = []\<rparr>
                   | Some key_id \<Rightarrow>
                      (if key_id = [] then
                         \<lparr>outcome = Returned None, sent = [create], logged = []\<rparr>
                       else
                        (let fetch = GetPublicKeyCommand key_id
                         in (case client fetch of
                               Inl e \<Rightarrow>
                                 \<lparr>outcome = Returned None, sent = [create, fetch],
                                  logged = [(caught, e)]\<rparr>
                             | Inr None \<Rightarrow>
                                 \<lparr>outcome = Returned None, sent = [create, fetch],
                                  logged = [(caught, TypeError)]\<rparr>
                             | Inr (Some fetched) \<Rightarrow>
                                (case PublicKey fetched of
                                   None \<Rightarrow>
                                     \<lparr>outcome = Returned None, sent = [create, fetch],
                                      logged = []\<rparr>
                                 | Some key_bytes \<Rightarrow>
                                     \<lparr>outcome = Returned (Some
                                        \<lparr>keyId = key_id,
                                         publicKey = pem_header @ ''\<newline>''
                                           @ base64_encode key_bytes @ ''\<newline>''
                                           @ pem_footer\<rparr>),
                                      sent = [create, fetch], logged = []\<rparr>)))))))))"

subsection \<open>getKMSKeyStatus\<close>

definition getKMSKeyStatus :: "client \<Rightarrow> string \<Rightarrow> bool option run" where
  "getKMSKeyStatus client key_id =
     (let describe = DescribeKeyCommand key_id in
      case client describe of
        Inl e \<Rightarrow>
          \<lparr>outcome = Returned None, sent = [describe],
           logged = [(''Error describing key:'', e)]\<rparr>
      | Inr None \<Rightarrow>
          \<lparr>outcome = Returned None, sent = [describe],
           logged = [(''Error describing key:'', TypeError)]\<rparr>
      | Inr (Some described) \<Rightarrow>
          \<lparr>outcome = Returned (Option.bind (KeyMetadata described) Enabled),
           sent = [describe], logged = []\<rparr>)"

subsection \<open>signJWTWithKMSKey\<close>

text \<open>
  The two \<^verbatim>\<open>JSON.stringify\<close> calls stand before the \<^verbatim>\<open>try\<close>: what they throw leaves the
  function. Inside the \<^verbatim>\<open>try\<close>, \<^verbatim>\<open>if (response?.Signature)\<close> is false when the response or
  its signature is \<^verbatim>\<open>undefined\<close>, and true for every byte array.
\<close>

definition encode_signature :: "byte list \<Rightarrow> string" where
  "encode_signature signature =
     replace_all (CHR ''='') ''''
       (replace_all (CHR ''/'') ''_'' (replace_all (CHR ''+'') ''-'' (base64url_encode signature)))"

definition signJWTWithKMSKey ::
  "client \<Rightarrow> 'j platform \<Rightarrow> 'j \<Rightarrow> 'j \<Rightarrow> string option run" where
  "signJWTWithKMSKey client pf header payload =
     (case JSON_stringify pf header of
        Inl e \<Rightarrow> \<lparr>outcome = Thrown e, sent = [], logged = []\<rparr>
      | Inr header_json \<Rightarrow>
     (case JSON_stringify pf payload of
        Inl e \<Rightarrow> \<lparr>outcome = Thrown e, sent = [], logged = []\<rparr>
      | Inr payload_json \<Rightarrow>
         (let encodedHeader = base64url_encode (utf8_encode header_json);
              encodedPayload = base64url_encode (utf8_encode payload_json);
              encodedHeaderPayload = encodedHeader @ ''.'' @ encodedPayload;
              caught = ''Error signing JWT:''
          in (case retrieveJWK pf (header_kid pf header) of
                Inl e \<Rightarrow> \<lparr>outcome = Returned None, sent = [], logged = [(caught, e)]\<rparr>
              | Inr found \<Rightarrow>
                 (let sign =
                        SignCommand (kms_id found) (utf8_encode encodedHeaderPayload) ''RAW''
                          ''RSASSA_PKCS1_V1_5_SHA_256''
                  in (case client sign of
                        Inl e \<Rightarrow>
                          \<lparr>outcome = Returned None, sent = [sign], logged = [(caught, e)]\<rparr>
                      | Inr resp \<Rightarrow>
                         (case Option.bind resp Signature of
                            None \<Rightarrow> \<lparr>outcome = Returned None, sent = [sign], logged = []\<rparr>
                          | Some signature \<Rightarrow>
                              \<lparr>outcome = Returned (Some
                                 (encodedHeaderPayload @ ''.''
                                    @ encode_signature signature)),
                               sent = [sign], logged = []\<rparr>)))))))"

subsection \<open>scheduleKeyDeletion\<close>

text \<open>The function has no \<^verbatim>\<open>return\<close>: it resolves to \<^verbatim>\<open>undefined\<close> on both paths.\<close>

definition scheduleKeyDeletion :: "client \<Rightarrow> string \<Rightarrow> unit run" where
  "scheduleKeyDeletion client key_id =
     (let schedule = ScheduleKeyDeletionCommand key_id 7 in
      case client schedule of
        Inl e \<Rightarrow>
          \<lparr>outcome = Returned (), sent = [schedule],
           logged = [(''Error scheduling key deletion:'', e)]\<rparr>
      | Inr ack \<Rightarrow> \<lparr>outcome = Returned (), sent = [schedule], logged = []\<rparr>)"


subsection \<open>Reading a policy document back\<close>

text \<open>
  A reader for the JSON texts that hold objects, arrays and strings only, as a policy
  document does; numbers, \<^verbatim>\<open>true\<close>, \<^verbatim>\<open>false\<close> and \<^verbatim>\<open>null\<close> are outside it. A string may hold
  any character but the double quote, the backslash and the control characters: escape
  sequences are outside the reader too, and it rejects a text that has one.
\<close>

definition plain_char :: "char \<Rightarrow> bool" where
  "plain_char c = (c \<noteq> CHR 0x22 \<and> c \<noteq> CHR 0x5C \<and> 32 \<le> (of_char c :: nat))"

definition plain_text :: "string \<Rightarrow> bool" where
  "plain_text s = list_all plain_char s"

datatype json = JString string | JArray "json list" | JObject "(string \<times> json) list"

datatype token = LBrace | RBrace | LBracket | RBracket | Colon | Comma | Quoted string

definition json_space :: "char \<Rightarrow> bool" where
  "json_space c = (c = CHR '' '' \<or> c = CHR ''\<newline>'' \<or> c = CHR 0x0D \<or> c = CHR 0x09)"

fun tokens :: "string option \<Rightarrow> string \<Rightarrow> token list option" where
  "tokens None [] = Some []"
| "tokens (Some literal) [] = None"
| "tokens None (c # cs) =
     (if c = CHR 0x22 then tokens (Some []) cs
      else if json_space c then tokens None cs
      else if c = CHR ''{'' then map_option ((#) LBrace) (tokens None cs)
      else if c = CHR ''}'' then map_option ((#) RBrace) (tokens None cs)
      else if c = CHR ''['' then map_option ((#) LBracket) (tokens None cs)
      else if c = CHR '']'' then map_option ((#) RBracket) (tokens None cs)
      else if c = CHR '':'' then map_option ((#) Colon) (tokens None cs)
      else if c = CHR '','' then map_option ((#) Comma) (tokens None cs)
      else None)"
| "tokens (Some literal) (c # cs) =
     (if c = CHR 0x22 then map_option ((#) (Quoted literal)) (tokens None cs)
      else if plain_char c then tokens (Some (literal @ [c])) cs
      else None)"

text \<open>
  The tokens are read one by one against a stack of the arrays and objects that are
  still open; \<open>Member\<close> is an object whose next value has its key already.
\<close>

datatype frame = Elements "json list" | Members "(string \<times> json) list"
  | Member "(string \<times> json) list" string

datatype expecting = AValue | AFirstValue | AKey | AFirstKey | AColon | ASeparator

datatype reader = Reading expecting "frame list" | Finished json | Rejected

fun complete :: "json \<Rightarrow> frame list \<Rightarrow> reader" where
  "complete v [] = Finished v"
| "complete v (Elements vs # stack) = Reading ASeparator (Elements (vs @ [v]) # stack)"
| "complete v (Member ms k # stack) = Reading ASeparator (Members (ms @ [(k, v)]) # stack)"
| "complete v (Members ms # stack) = Rejected"

fun read_value :: "token \<Rightarrow> frame list \<Rightarrow> reader" where
  "read_value (Quoted s) stack = complete (JString s) stack"
| "read_value LBracket stack = Reading AFirstValue (Elements [] # stack)"
| "read_value LBrace stack = Reading AFirstKey (Members [] # stack)"
| "read_value t stack = Rejected"

fun close_array :: "frame list \<Rightarrow> reader" where
  "close_array (Elements vs # stack) = complete (JArray vs) stack"
| "close_array stack = Rejected"

fun close_object :: "frame list \<Rightarrow> reader" where
  "close_object (Members ms # stack) = complete (JObject ms) stack"
| "close_object stack = Rejected"

fun read_key :: "token \<Rightarrow> frame list \<Rightarrow> reader" where
  "read_key (Quoted k) (Members ms # stack) = Reading AColon (Member ms k # stack)"
| "read_key t stack = Rejected"

fun next_item :: "frame list \<Rightarrow> reader" where
  "next_item (Elements vs # stack) = Reading AValue (Elements vs # stack)"
| "next_item (Members ms # stack) = Reading AKey (Members ms # stack)"
| "next_item stack = Rejected"

fun read_expected :: "expecting \<Rightarrow> token \<Rightarrow> frame list \<Rightarrow> reader" where
  "read_expected AValue t stack = read_value t stack"
| "read_expected AFirstValue t stack =
     (if t = RBracket then close_array stack else read_value t stack)"
| "read_expected AKey t stack = read_key t stack"
| "read_expected AFirstKey t stack =
     (if t = RBrace then close_object stack else read_key t stack)"
| "read_expected AColon t stack = (if t = Colon then Reading AValue stack else Rejected)"
| "read_expected ASeparator t stack =
     (if t = Comma then next_item stack
      else if t = RBracket then close_array stack
      else if t = RBrace then close_object stack
      else Rejected)"

fun read_token :: "reader \<Rightarrow> token \<Rightarrow> reader" where
  "read_token (Reading expected stack) t = read_expected expected t stack"
| "read_token r t = Rejected"

definition JSON_parse :: "string \<Rightarrow> json option" where
  "JSON_parse text =
     (case tokens None text of
        None \<Rightarrow> None
      | Some ts \<Rightarrow> (case foldl read_token (Reading AValue []) ts of
                     Finished v \<Rightarrow> Some v
                   | _ \<Rightarrow> None))"

subsection \<open>Stubs for the scenarios\<close>

text \<open>
  The objects of the scenarios are flat, with string values that need no escaping; on
  these \<^verbatim>\<open>JSON.stringify\<close> writes the properties in order, without white space.
\<close>

fun join_commas :: "string list \<Rightarrow> string" where
  "join_commas [] = []"
| "join_commas [x] = x"
| "join_commas (x # y # rest) = x @ '','' @ join_commas (y # rest)"

definition scenario_stringify :: "(string \<times> string) list \<Rightarrow> string" where
  \<open>scenario_stringify obj =
     ''{'' @ join_commas (map (\<lambda>(k, v). ''"'' @ k @ ''":"'' @ v @ ''"'') obj) @ ''}''\<close>

definition scenario_platform :: "(string \<times> string) list platform" where
  "scenario_platform =
     \<lparr>JSON_stringify = (\<lambda>obj. Inr (scenario_stringify obj)),
      header_kid = (\<lambda>obj. map_of obj ''kid''),
      retrieveJWK = (\<lambda>kid. if kid = Some ''abc123''
                            then Inr \<lparr>kms_id = ''kms-1'', active = True\<rparr>
                            else Inl (ServiceError ''JWK not found.'')),
      AWS_KMS_ROLE_ARN = Some ''arn:aws:iam::123456789012:role/kms'',
      JWK_TIME_TO_LIVE = 90,
      dayjs_now = Some 1704067200000,
      dayjs_add_day = (\<lambda>d n. map_option (\<lambda>t. t + n * 86400000) d),
      Date_now_toISOString = ''2024-01-01T00:00:00.000Z''\<rparr>"

text \<open>The same surroundings, with a role ARN that holds a double quote.\<close>

definition unescaped_platform :: "(string \<times> string) list platform" where
  \<open>unescaped_platform =
     scenario_platform\<lparr>AWS_KMS_ROLE_ARN := Some ''arn:aws:iam::123456789012:role/a"b''\<rparr>\<close>

definition scenario_header :: "(string \<times> string) list" where
  "scenario_header = [(''kid'', ''abc123'')]"

definition scenario_payload :: "(string \<times> string) list" where
  "scenario_payload = [(''sub'', ''user1'')]"

definition no_fields :: response where
  "no_fields = \<lparr>KeyMetadata = None, PublicKey = None, Signature = None\<rparr>"

text \<open>A KMS stub on which every command succeeds; its signature is 0xAABBCC.\<close>

definition stub_client :: client where
  "stub_client cmd =
     (case cmd of
        CreateKeyCommand spec usage description policy tags \<Rightarrow>
          Inr (Some (no_fields\<lparr>KeyMetadata :=
            Some \<lparr>KeyId = Some ''abc123'', Enabled = Some True\<rparr>\<rparr>))
      | GetPublicKeyCommand k \<Rightarrow> Inr (Some (no_fields\<lparr>PublicKey := Some [0x30, 0x82, 0x01, 0x22]\<rparr>))
      | DescribeKeyCommand k \<Rightarrow>
          Inr (Some (no_fields\<lparr>KeyMetadata := Some \<lparr>KeyId = Some k, Enabled = Some True\<rparr>\<rparr>))
      | SignCommand k message message_type algorithm \<Rightarrow>
          Inr (Some (no_fields\<lparr>Signature := Some [0xAA, 0xBB, 0xCC]\<rparr>))
      | ScheduleKeyDeletionCommand k days \<Rightarrow> Inr (Some no_fields))"

text \<open>A KMS stub that rejects every command.\<close>

definition failing_client :: client where
  "failing_client cmd = Inl (ServiceError ''AccessDeniedException'')"

text \<open>A KMS stub whose responses carry no field at all.\<close>

definition bare_client :: client where
  "bare_client cmd = Inr (Some no_fields)"

text \<open>A KMS stub that creates a key and answers with byte arrays of length zero.\<close>

definition zero_length_client :: client where
  "zero_length_client cmd =
     (case cmd of
        CreateKeyCommand spec usage description policy tags \<Rightarrow>
          Inr (Some (no_fields\<lparr>KeyMetadata :=
            Some \<lparr>KeyId = Some ''abc123'', Enabled = Some True\<rparr>\<rparr>))
      | GetPublicKeyCommand k \<Rightarrow> Inr (Some (no_fields\<lparr>PublicKey := Some []\<rparr>))
      | SignCommand k message message_type algorithm \<Rightarrow>
          Inr (Some (no_fields\<lparr>Signature := Some []\<rparr>))
      | _ \<Rightarrow> Inr (Some no_fields))"

section \<open>Facts about the calendar and the rendering of instants\<close>

subsection \<open>Day numbers\<close>

lemma century_split:
  fixes doe :: int
  assumes "0 \<le> doe" "doe < 146097"
  defines "c \<equiv> min 3 (doe div 36524)"
  shows "0 \<le> c" "c \<le> 3" "0 \<le> doe - c * 36524" "doe - c * 36524 \<le> 36524"
proof -
  have q: "0 \<le> doe div 36524"
    using assms(1) by (simp add: pos_imp_zdiv_nonneg_iff)
  show "0 \<le> c" "c \<le> 3"
    using q by (simp_all add: c_def)
  have m: "doe = 36524 * (doe div 36524) + doe mod 36524"
    by simp
  have r: "0 \<le> doe mod 36524" "doe mod 36524 < 36524"
    by simp_all
  show "0 \<le> doe - c * 36524" "doe - c * 36524 \<le> 36524"
    using m r q assms(2) unfolding c_def min_def by (auto split: if_splits)
qed


lemma year_split:
  fixes doq :: int
  assumes "0 \<le> doq" "doq \<le> 1460"
  defines "y \<equiv> min 3 (doq div 365)"
  shows "0 \<le> y" "y \<le> 3" "0 \<le> doq - y * 365" "doq - y * 365 \<le> 365"
proof -
  have q: "0 \<le> doq div 365"
    using assms(1) by (simp add: pos_imp_zdiv_nonneg_iff)
  show "0 \<le> y" "y \<le> 3"
    using q by (simp_all add: y_def)
  have m: "doq = 365 * (doq div 365) + doq mod 365"
    by simp
  have r: "0 \<le> doq mod 365" "doq mod 365 < 365"
    by simp_all
  show "0 \<le> doq - y * 365" "doq - y * 365 \<le> 365"
    using m r q assms(2) unfolding y_def min_def by (auto split: if_splits)
qed

lemma quad_split:
  fixes doc :: int
  assumes "0 \<le> doc" "doc \<le> 36524"
  shows "0 \<le> doc div 1461" "doc div 1461 \<le> 24" "0 \<le> doc mod 1461" "doc mod 1461 \<le> 1460"
    "doc = (doc div 1461) * 1461 + doc mod 1461"
proof -
  show "0 \<le> doc div 1461"
    using assms(1) by (simp add: pos_imp_zdiv_nonneg_iff)
  have "doc div 1461 \<le> 36524 div 1461"
    using assms(2) by (rule zdiv_mono1) simp
  then show "doc div 1461 \<le> 24" by simp
  show "0 \<le> doc mod 1461" by simp
  have "doc mod 1461 < 1461" by simp
  then show "doc mod 1461 \<le> 1460" by simp
  show "doc = (doc div 1461) * 1461 + doc mod 1461" by simp
qed

lemma month_split:
  fixes doy :: int
  assumes "0 \<le> doy" "doy \<le> 365"
  defines "mp \<equiv> (5 * doy + 2) div 153"
  shows "0 \<le> mp" "mp \<le> 11" "0 \<le> doy - (153 * mp + 2) div 5" "doy - (153 * mp + 2) div 5 \<le> 30"
proof -
  show "0 \<le> mp"
    using assms(1) by (simp add: mp_def pos_imp_zdiv_nonneg_iff)
  have "(5 * doy + 2) div 153 \<le> 1827 div 153"
    using assms(2) by (intro zdiv_mono1) simp_all
  then show "mp \<le> 11" by (simp add: mp_def)
  define r where "r = (5 * doy + 2) mod 153"
  define e where "e = (153 * mp + 2) div 5"
  define r' where "r' = (153 * mp + 2) mod 5"
  have a: "5 * doy + 2 = 153 * mp + r"
    unfolding mp_def r_def by simp
  have ra: "0 \<le> r" "r < 153"
    unfolding r_def by simp_all
  have b: "153 * mp + 2 = 5 * e + r'"
    unfolding e_def r'_def by simp
  have rb: "0 \<le> r'" "r' < 5"
    unfolding r'_def by simp_all
  have "0 \<le> doy - e" "doy - e \<le> 30"
    using a ra b rb by linarith+
  then show "0 \<le> doy - (153 * mp + 2) div 5" "doy - (153 * mp + 2) div 5 \<le> 30"
    unfolding e_def .
qed


lemma div_mod_unique:
  fixes q r b :: int
  assumes "0 \<le> r" "r < b"
  shows "(q * b + r) div b = q" "(q * b + r) mod b = r"
  using assms by simp_all

lemma days_from_civil_civil_from_days: "days_from_civil (civil_from_days z) = z"
proof -
  define shifted where "shifted = z + 719468"
  define era where "era = shifted div 146097"
  define doe where "doe = shifted mod 146097"
  define centuries where "centuries = min 3 (doe div 36524)"
  define doc where "doc = doe - centuries * 36524"
  define quads where "quads = doc div 1461"
  define doq where "doq = doc mod 1461"
  define years where "years = min 3 (doq div 365)"
  define doy where "doy = doq - years * 365"
  define mp where "mp = (5 * doy + 2) div 153"
  define day where "day = doy - (153 * mp + 2) div 5 + 1"
  define month where "month = (if mp < 10 then mp + 3 else mp - 9)"
  define carry :: int where "carry = (if month \<le> 2 then 1 else 0)"
  define year where "year = era * 400 + centuries * 100 + quads * 4 + years + carry"
  have civil: "civil_from_days z = (year, month, day)"
    unfolding civil_from_days_def Let_def year_def carry_def month_def day_def mp_def doy_def
      years_def doq_def quads_def doc_def centuries_def doe_def era_def shifted_def ..
  have doe: "0 \<le> doe" "doe < 146097"
    unfolding doe_def by simp_all
  have shifted: "shifted = era * 146097 + doe"
    unfolding era_def doe_def by simp
  have c: "0 \<le> centuries" "centuries \<le> 3" "0 \<le> doc" "doc \<le> 36524"
    unfolding doc_def centuries_def by (rule century_split [OF doe])+
  have q: "0 \<le> quads" "quads \<le> 24" "0 \<le> doq" "doq \<le> 1460"
    "doc = quads * 1461 + doq"
    unfolding quads_def doq_def by (rule quad_split [OF c(3,4)])+
  have y: "0 \<le> years" "years \<le> 3" "0 \<le> doy" "doy \<le> 365"
    unfolding doy_def years_def by (rule year_split [OF q(3,4)])+
  have m: "0 \<le> mp" "mp \<le> 11"
    unfolding mp_def by (rule month_split [OF y(3,4)])+
  define yoe where "yoe = centuries * 100 + quads * 4 + years"
  have yoe: "0 \<le> yoe" "yoe < 400"
    unfolding yoe_def using c(1,2) q(1,2) y(1,2) by linarith+
  have y': "year - (if month \<le> 2 then 1 else 0) = era * 400 + yoe"
    unfolding year_def carry_def yoe_def by simp
  have era': "(era * 400 + yoe) div 400 = era" "(era * 400 + yoe) mod 400 = yoe"
    by (rule div_mod_unique [OF yoe])+
  have inner: "0 \<le> quads * 4 + years" "quads * 4 + years < 100"
    using q(1,2) y(1,2) by linarith+
  have cent: "yoe div 100 = centuries" "yoe mod 100 = quads * 4 + years"
    unfolding yoe_def add.assoc by (rule div_mod_unique [OF inner])+
  have yr: "0 \<le> years" "years < 4"
    using y(1,2) by linarith+
  have quad: "(quads * 4 + years) div 4 = quads" "(quads * 4 + years) mod 4 = years"
    by (rule div_mod_unique [OF yr])+
  have four: "yoe mod 4 = years"
  proof -
    have "yoe = (centuries * 25 + quads) * 4 + years"
      unfolding yoe_def by simp
    then show ?thesis
      using div_mod_unique(2) [OF yr, of "centuries * 25 + quads"] by simp
  qed
  have mp': "(if 2 < month then month - 3 else month + 9) = mp"
    unfolding month_def using m by auto
  have doy': "(153 * mp + 2) div 5 + day - 1 = doy"
    unfolding day_def by simp
  have "days_from_civil (year, month, day) =
      era * 146097 + (centuries * 36524 + quads * 1461 + years * 365 + doy) - 719468"
    unfolding days_from_civil_def Let_def prod.case y' era' cent quad four mp' doy' ..
  also have "\<dots> = shifted - 719468"
    unfolding shifted using q(5) by (simp add: doc_def doy_def)
  also have "\<dots> = z"
    unfolding shifted_def by simp
  finally show ?thesis
    unfolding civil .
qed

subsection \<open>Digits\<close>

lemma digits_numeral:
  "digits (numeral k) n = digits (pred_numeral k) (n div 10) @ [digit_char (n mod 10)]"
  by (simp only: numeral_eq_Suc [of k] digits.simps)

lemma length_digits: "length (digits w n) = w"
  by (induction w arbitrary: n) simp_all

lemma digit_char_inj: "a < 10 \<Longrightarrow> b < 10 \<Longrightarrow> digit_char a = digit_char b \<Longrightarrow> a = b"
  by (simp add: digit_char_def nth_eq_iff_index_eq)

lemma digits_inj:
  "n < 10 ^ w \<Longrightarrow> m < 10 ^ w \<Longrightarrow> digits w n = digits w m \<Longrightarrow> n = m"
proof (induction w arbitrary: n m)
  case 0
  then show ?case by simp
next
  case (Suc w)
  from Suc.prems(3) have hi: "digits w (n div 10) = digits w (m div 10)"
    and lo: "digit_char (n mod 10) = digit_char (m mod 10)"
    by simp_all
  have "n < 10 ^ w * 10"
    using Suc.prems(1) by simp
  then have n: "n div 10 < 10 ^ w"
    by (rule less_mult_imp_div_less)
  have "m < 10 ^ w * 10"
    using Suc.prems(2) by simp
  then have m: "m div 10 < 10 ^ w"
    by (rule less_mult_imp_div_less)
  have d: "n div 10 = m div 10"
    using n m hi by (rule Suc.IH)
  have r: "n mod 10 = m mod 10"
    using lo by (intro digit_char_inj) simp_all
  have "10 * (n div 10) + n mod 10 = 10 * (m div 10) + m mod 10"
    using d r by simp
  then show ?case
    by (simp only: mult_div_mod_eq)
qed

subsection \<open>The rendering\<close>

lemma plain_digit_char: "d < 10 \<Longrightarrow> plain_char (digit_char d)"
proof -
  assume "d < 10"
  then have "digit_char d \<in> set ''0123456789''"
    unfolding digit_char_def by (intro nth_mem) simp
  then show ?thesis
    by (auto simp: plain_char_def)
qed

lemma plain_digits: "plain_text (digits w n)"
  by (induction w arbitrary: n) (simp_all add: plain_text_def plain_digit_char)

lemma plain_text_append: "plain_text (a @ b) \<longleftrightarrow> plain_text a \<and> plain_text b"
  by (simp add: plain_text_def)

lemma plain_text_Cons: "plain_text (c # s) \<longleftrightarrow> plain_char c \<and> plain_text s"
  by (simp add: plain_text_def)

lemma plain_text_Nil: "plain_text []"
  by (simp add: plain_text_def)

lemma plain_punctuation:
  "plain_char (CHR ''-'')" "plain_char (CHR ''+'')" "plain_char (CHR ''T'')"
  "plain_char (CHR '':'')" "plain_char (CHR ''.'')" "plain_char (CHR ''Z'')"
  by (simp_all add: plain_char_def)

lemma plain_year_text: "plain_text (year_text y)"
  by (simp add: year_text_def plain_text_append plain_text_Cons plain_text_Nil plain_digits
      plain_punctuation)

lemma plain_clock_text: "plain_text (clock_text ms)"
  by (simp add: clock_text_def plain_text_append plain_text_Cons plain_text_Nil plain_digits
      plain_punctuation)

lemma plain_iso_text: "plain_text (iso_text t)"
  by (simp add: iso_text_def plain_text_append plain_text_Cons plain_text_Nil plain_digits
      plain_year_text plain_clock_text plain_punctuation split: prod.splits)


lemma civil_from_days_range:
  assumes "civil_from_days z = (year, month, day)"
  shows "1 \<le> month" "month \<le> 12" "1 \<le> day" "day \<le> 31"
    "((z + 719468) div 146097) * 400 \<le> year" "year \<le> ((z + 719468) div 146097) * 400 + 400"
proof -
  define shifted where "shifted = z + 719468"
  define era where "era = shifted div 146097"
  define doe where "doe = shifted mod 146097"
  define centuries where "centuries = min 3 (doe div 36524)"
  define doc where "doc = doe - centuries * 36524"
  define quads where "quads = doc div 1461"
  define doq where "doq = doc mod 1461"
  define years where "years = min 3 (doq div 365)"
  define doy where "doy = doq - years * 365"
  define mp where "mp = (5 * doy + 2) div 153"
  have civil: "civil_from_days z =
      (era * 400 + centuries * 100 + quads * 4 + years
         + (if (if mp < 10 then mp + 3 else mp - 9) \<le> 2 then 1 else 0),
       (if mp < 10 then mp + 3 else mp - 9),
       doy - (153 * mp + 2) div 5 + 1)"
    unfolding civil_from_days_def Let_def mp_def doy_def
      years_def doq_def quads_def doc_def centuries_def doe_def era_def shifted_def ..
  have doe: "0 \<le> doe" "doe < 146097"
    unfolding doe_def by simp_all
  have c: "0 \<le> centuries" "centuries \<le> 3" "0 \<le> doc" "doc \<le> 36524"
    unfolding doc_def centuries_def by (rule century_split [OF doe])+
  have q: "0 \<le> quads" "quads \<le> 24" "0 \<le> doq" "doq \<le> 1460"
    unfolding quads_def doq_def by (rule quad_split [OF c(3,4)])+
  have y: "0 \<le> years" "years \<le> 3" "0 \<le> doy" "doy \<le> 365"
    unfolding doy_def years_def by (rule year_split [OF q(3,4)])+
  have m: "0 \<le> mp" "mp \<le> 11" "0 \<le> doy - (153 * mp + 2) div 5"
    "doy - (153 * mp + 2) div 5 \<le> 30"
    unfolding mp_def by (rule month_split [OF y(3,4)])+
  from assms civil have
    "(year, month, day) =
      (era * 400 + centuries * 100 + quads * 4 + years
         + (if (if mp < 10 then mp + 3 else mp - 9) \<le> 2 then 1 else 0),
       (if mp < 10 then mp + 3 else mp - 9),
       doy - (153 * mp + 2) div 5 + 1)"
    by (rule trans [OF sym])
  then have
    year: "year = era * 400 + centuries * 100 + quads * 4 + years
         + (if (if mp < 10 then mp + 3 else mp - 9) \<le> 2 then 1 else 0)" and
    month: "month = (if mp < 10 then mp + 3 else mp - 9)" and
    day: "day = doy - (153 * mp + 2) div 5 + 1"
    by (simp_all only: prod.inject)
  show "1 \<le> month" "month \<le> 12"
    unfolding month using m(1,2) by auto
  show "1 \<le> day" "day \<le> 31"
    unfolding day using m(3,4) by auto
  show "((z + 719468) div 146097) * 400 \<le> year" "year \<le> ((z + 719468) div 146097) * 400 + 400"
    unfolding year era_def [symmetric] shifted_def [symmetric]
    using c(1,2) q(1,2) y(1,2) by (auto split: if_splits)
qed

lemma civil_year_bound:
  assumes "civil_from_days (t div 86400000) = (year, month, day)"
      and "\<bar>t\<bar> \<le> 8640000000000000"
  shows "\<bar>year\<bar> < 1000000"
proof -
  have t: "- 8640000000000000 \<le> t" "t \<le> 8640000000000000"
    using assms(2) by linarith+
  have "(- 8640000000000000) div 86400000 \<le> t div 86400000"
    using t(1) by (rule zdiv_mono1) simp
  then have lo: "- 100000000 \<le> t div 86400000"
    by simp
  have "t div 86400000 \<le> 8640000000000000 div 86400000"
    using t(2) by (rule zdiv_mono1) simp
  then have hi: "t div 86400000 \<le> 100000000"
    by simp
  define e where "e = (t div 86400000 + 719468) div 146097"
  have "(- 100000000 + 719468) div 146097 \<le> e"
    unfolding e_def using lo by (intro zdiv_mono1) simp_all
  then have elo: "- 680 \<le> e"
    by simp
  have "e \<le> (100000000 + 719468) div 146097"
    unfolding e_def using hi by (intro zdiv_mono1) simp_all
  then have ehi: "e \<le> 689"
    by simp
  have "e * 400 \<le> year" "year \<le> e * 400 + 400"
    unfolding e_def by (rule civil_from_days_range [OF assms(1)])+
  then show ?thesis
    using elo ehi by linarith
qed

lemma year_text_inj:
  assumes "\<bar>a\<bar> < 1000000" "\<bar>b\<bar> < 1000000" "year_text a = year_text b"
  shows "a = b"
proof -
  have len: "length (year_text y) = (if 0 \<le> y \<and> y \<le> 9999 then 4 else 7)" for y
    by (simp add: year_text_def length_digits)
  have six: "nat \<bar>a\<bar> < 10 ^ 6" "nat \<bar>b\<bar> < 10 ^ 6"
    using assms(1,2) by simp_all
  show ?thesis
  proof (cases "0 \<le> a \<and> a \<le> 9999")
    case True
    then have "0 \<le> b \<and> b \<le> 9999"
      using len [of a] len [of b] assms(3) by (auto split: if_splits)
    with True assms(3) have "digits 4 (nat a) = digits 4 (nat b)"
      by (simp add: year_text_def)
    moreover have "nat a < 10 ^ 4" "nat b < 10 ^ 4"
      using True \<open>0 \<le> b \<and> b \<le> 9999\<close> by auto
    ultimately have "nat a = nat b"
      using digits_inj by blast
    with True \<open>0 \<le> b \<and> b \<le> 9999\<close> show ?thesis by linarith
  next
    case False
    then have other: "\<not> (0 \<le> b \<and> b \<le> 9999)"
      using len [of a] len [of b] assms(3) by (auto split: if_splits)
    from False other assms(3) have
      sign: "(a < 0) = (b < 0)" and "digits 6 (nat \<bar>a\<bar>) = digits 6 (nat \<bar>b\<bar>)"
      by (auto simp: year_text_def split: if_splits)
    then have "nat \<bar>a\<bar> = nat \<bar>b\<bar>"
      using six digits_inj by blast
    with sign show ?thesis by linarith
  qed
qed


lemma clock_fields:
  fixes ms :: int
  shows "ms = ((ms div 3600000 * 60 + ms div 60000 mod 60) * 60 + ms div 1000 mod 60) * 1000
           + ms mod 1000"
proof -
  define x where "x = ms div 1000"
  define w where "w = x div 60"
  have a: "ms div 60000 = w"
    unfolding w_def x_def by (simp add: zdiv_zmult2_eq)
  have b: "ms div 3600000 = w div 60"
    unfolding w_def x_def by (simp add: zdiv_zmult2_eq)
  have 1: "ms = x * 1000 + ms mod 1000"
    unfolding x_def by simp
  have 2: "x = w * 60 + x mod 60"
    unfolding w_def by simp
  have 3: "w = w div 60 * 60 + w mod 60"
    by simp
  have "ms = ((w div 60 * 60 + w mod 60) * 60 + x mod 60) * 1000 + ms mod 1000"
    using 1 2 3 by (simp only:)
  then show ?thesis
    unfolding a b x_def [symmetric] .
qed

lemma clock_ranges:
  fixes ms :: int
  assumes "0 \<le> ms" "ms < 86400000"
  shows "nat (ms div 3600000) < 10 ^ 2" "nat (ms div 60000 mod 60) < 10 ^ 2"
    "nat (ms div 1000 mod 60) < 10 ^ 2" "nat (ms mod 1000) < 10 ^ 3"
    "0 \<le> ms div 3600000"
proof -
  have "ms div 3600000 \<le> 86399999 div 3600000"
    using assms(2) by (intro zdiv_mono1) simp_all
  then show "nat (ms div 3600000) < 10 ^ 2"
    by simp
  have "ms div 60000 mod 60 < 60" "ms div 1000 mod 60 < 60" "ms mod 1000 < 1000"
    by simp_all
  then show "nat (ms div 60000 mod 60) < 10 ^ 2" "nat (ms div 1000 mod 60) < 10 ^ 2"
    "nat (ms mod 1000) < 10 ^ 3"
    by simp_all
  show "0 \<le> ms div 3600000"
    using assms(1) by (simp add: pos_imp_zdiv_nonneg_iff)
qed

lemma nat_eq: "0 \<le> x \<Longrightarrow> 0 \<le> y \<Longrightarrow> nat x = nat y \<Longrightarrow> x = y"
  by simp

lemma clock_text_inj:
  assumes "0 \<le> a" "a < 86400000" "0 \<le> b" "b < 86400000" "clock_text a = clock_text b"
  shows "a = b"
proof -
  from assms(5) have
    h: "digits 2 (nat (a div 3600000)) = digits 2 (nat (b div 3600000))" and
    m: "digits 2 (nat (a div 60000 mod 60)) = digits 2 (nat (b div 60000 mod 60))" and
    s: "digits 2 (nat (a div 1000 mod 60)) = digits 2 (nat (b div 1000 mod 60))" and
    f: "digits 3 (nat (a mod 1000)) = digits 3 (nat (b mod 1000))"
    by (simp_all add: clock_text_def length_digits)
  have "nat (a div 3600000) = nat (b div 3600000)"
    using clock_ranges(1) [OF assms(1,2)] clock_ranges(1) [OF assms(3,4)] h
    by (rule digits_inj)
  then have h': "a div 3600000 = b div 3600000"
    using clock_ranges(5) [OF assms(1,2)] clock_ranges(5) [OF assms(3,4)] by linarith
  have "nat (a div 60000 mod 60) = nat (b div 60000 mod 60)"
    using clock_ranges(2) [OF assms(1,2)] clock_ranges(2) [OF assms(3,4)] m
    by (rule digits_inj)
  then have m': "a div 60000 mod 60 = b div 60000 mod 60"
    by (intro nat_eq) simp_all
  have "nat (a div 1000 mod 60) = nat (b div 1000 mod 60)"
    using clock_ranges(3) [OF assms(1,2)] clock_ranges(3) [OF assms(3,4)] s
    by (rule digits_inj)
  then have s': "a div 1000 mod 60 = b div 1000 mod 60"
    by (intro nat_eq) simp_all
  have "nat (a mod 1000) = nat (b mod 1000)"
    using clock_ranges(4) [OF assms(1,2)] clock_ranges(4) [OF assms(3,4)] f
    by (rule digits_inj)
  then have f': "a mod 1000 = b mod 1000"
    by (intro nat_eq) simp_all
  have "a = ((a div 3600000 * 60 + a div 60000 mod 60) * 60 + a div 1000 mod 60) * 1000
           + a mod 1000"
    by (rule clock_fields)
  also have "\<dots> = ((b div 3600000 * 60 + b div 60000 mod 60) * 60 + b div 1000 mod 60) * 1000
           + b mod 1000"
    unfolding h' m' s' f' ..
  also have "\<dots> = b"
    by (rule clock_fields [symmetric])
  finally show ?thesis .
qed


lemma iso_text_inj:
  assumes "\<bar>a\<bar> \<le> 8640000000000000" "\<bar>b\<bar> \<le> 8640000000000000" "iso_text a = iso_text b"
  shows "a = b"
proof -
  obtain ya ma da where ca: "civil_from_days (a div 86400000) = (ya, ma, da)"
    by (cases "civil_from_days (a div 86400000)")
  obtain yb mb db where cb: "civil_from_days (b div 86400000) = (yb, mb, db)"
    by (cases "civil_from_days (b div 86400000)")
  let ?tail = "\<lambda>m d t. ''-'' @ digits 2 (nat m) @ ''-'' @ digits 2 (nat d) @ ''T''
      @ clock_text (t mod 86400000) @ ''Z''"
  have ta: "iso_text a = year_text ya @ ?tail ma da a"
    by (simp add: iso_text_def ca)
  have tb: "iso_text b = year_text yb @ ?tail mb db b"
    by (simp add: iso_text_def cb)
  have len: "length (?tail m d t) = 20" for m d t
    by (simp add: clock_text_def length_digits)
  have eq: "year_text ya @ ?tail ma da a = year_text yb @ ?tail mb db b"
    using assms(3) unfolding ta tb .
  have lens: "length (?tail ma da a) = length (?tail mb db b)"
    unfolding len ..
  have both: "year_text ya = year_text yb \<and> ?tail ma da a = ?tail mb db b"
    by (rule append_eq_append_conv [THEN iffD1, OF disjI2 [OF lens] eq])
  then have year: "year_text ya = year_text yb" and tail: "?tail ma da a = ?tail mb db b"
    by (rule conjunct1, rule conjunct2)
  have y: "ya = yb"
    using civil_year_bound [OF ca assms(1)] civil_year_bound [OF cb assms(2)] year
    by (rule year_text_inj)
  from tail have
    m: "digits 2 (nat ma) = digits 2 (nat mb)" and
    d: "digits 2 (nat da) = digits 2 (nat db)" and
    c: "clock_text (a mod 86400000) = clock_text (b mod 86400000)"
    by (simp_all add: length_digits)
  have ra: "1 \<le> ma" "ma \<le> 12" "1 \<le> da" "da \<le> 31"
    by (rule civil_from_days_range [OF ca])+
  have rb: "1 \<le> mb" "mb \<le> 12" "1 \<le> db" "db \<le> 31"
    by (rule civil_from_days_range [OF cb])+
  have "nat ma < 10 ^ 2" "nat mb < 10 ^ 2" "nat da < 10 ^ 2" "nat db < 10 ^ 2"
    using ra rb by simp_all
  then have "nat ma = nat mb" "nat da = nat db"
    using m d digits_inj by blast+
  then have md: "ma = mb" "da = db"
    using ra rb by linarith+
  have "a div 86400000 = days_from_civil (civil_from_days (a div 86400000))"
    by (simp only: days_from_civil_civil_from_days)
  also have "\<dots> = days_from_civil (civil_from_days (b div 86400000))"
    unfolding ca cb y md ..
  also have "\<dots> = b div 86400000"
    by (simp only: days_from_civil_civil_from_days)
  finally have day: "a div 86400000 = b div 86400000" .
  have clock: "a mod 86400000 = b mod 86400000"
    by (rule clock_text_inj [OF _ _ _ _ c]) simp_all
  have "a = 86400000 * (a div 86400000) + a mod 86400000"
    by simp
  also have "\<dots> = 86400000 * (b div 86400000) + b mod 86400000"
    unfolding day clock ..
  also have "\<dots> = b"
    by simp
  finally show ?thesis .
qed

lemma toISOString_inj:
  "toISOString a = Inr text \<Longrightarrow> toISOString b = Inr text \<Longrightarrow> a = b"
  by (auto simp: toISOString_def split: option.splits if_splits intro: iso_text_inj)

lemma toISOString_plain: "toISOString a = Inr text \<Longrightarrow> plain_text text"
  by (auto simp: toISOString_def plain_iso_text split: option.splits if_splits)

section \<open>Facts about the encoders\<close>

subsection \<open>Base64 groups\<close>

lemma regroup4:
  fixes n :: nat
  shows "n div 262144 * 262144 + n div 4096 mod 64 * 4096 + n div 64 mod 64 * 64 + n mod 64 = n"
proof -
  define m where "m = n div 64"
  define k where "k = m div 64"
  define a where "a = k div 64"
  define b where "b = k mod 64"
  define c where "c = m mod 64"
  define d where "d = n mod 64"
  have m: "n div 4096 = k" unfolding k_def m_def by (simp add: div_mult2_eq)
  have k: "n div 262144 = a" unfolding a_def k_def m_def by (simp add: div_mult2_eq)
  have 1: "n = d + 64 * m" unfolding m_def d_def by simp
  have 2: "m = c + 64 * k" unfolding k_def c_def by simp
  have 3: "k = b + 64 * a" unfolding a_def b_def by simp
  have "a * 262144 + b * 4096 + c * 64 + d = n"
    unfolding 1 2 3 by simp
  then show ?thesis
    unfolding k m a_def [symmetric] b_def [symmetric] m_def [symmetric] c_def [symmetric]
      d_def [symmetric] .
qed

lemma regroup3:
  fixes n :: nat
  shows "n div 4096 * 4096 + n div 64 mod 64 * 64 + n mod 64 = n"
proof -
  define m where "m = n div 64"
  define a where "a = m div 64"
  define c where "c = m mod 64"
  define d where "d = n mod 64"
  have k: "n div 4096 = a" unfolding a_def m_def by (simp add: div_mult2_eq)
  have 1: "n = d + 64 * m" unfolding m_def d_def by simp
  have 2: "m = c + 64 * a" unfolding a_def c_def by simp
  have "a * 4096 + c * 64 + d = n"
    unfolding 1 2 by simp
  then show ?thesis
    unfolding k a_def [symmetric] m_def [symmetric] c_def [symmetric] d_def [symmetric] .
qed

lemma unat_byte_lt: "unat (a::byte) < 256"
  using unsigned_less [of a] by simp

lemma byte_of_unat: "of_nat (unat (a::byte) + 256 * k) = a"
proof -
  have "unat (of_nat (unat a + 256 * k) :: byte) = (unat a + 256 * k) mod 2 ^ LENGTH(8)"
    by (rule unat_of_nat)
  also have "\<dots> = unat a"
    using unat_byte_lt [of a] by simp
  finally show ?thesis
    by (rule word_unat_eq_iff [THEN iffD2])
qed

lemma div_hi: "(x::nat) < d \<Longrightarrow> (a * d + x) div d = a"
  by simp

lemma triple_bytes:
  fixes a b c :: byte
  defines "n \<equiv> unat a * 65536 + unat b * 256 + unat c"
  shows "(of_nat (n div 65536) :: byte) = a" "(of_nat (n div 256) :: byte) = b"
    "(of_nat n :: byte) = c"
proof -
  have lt: "unat b * 256 + unat c < 65536" "unat c < 256"
    using unat_byte_lt [of b] unat_byte_lt [of c] by simp_all
  have "n div 65536 = unat a"
    unfolding n_def using div_hi [OF lt(1), of "unat a"] by (simp add: add.assoc)
  then show "(of_nat (n div 65536) :: byte) = a" by simp
  have "n = (unat a * 256 + unat b) * 256 + unat c" unfolding n_def by simp
  then have "n div 256 = unat b + 256 * unat a"
    using div_hi [OF lt(2), of "unat a * 256 + unat b"] by simp
  then show "(of_nat (n div 256) :: byte) = b" by (simp only: byte_of_unat)
  have "n = unat c + 256 * (unat b + 256 * unat a)" unfolding n_def by simp
  then show "(of_nat n :: byte) = c" by (simp only: byte_of_unat)
qed


lemma pair_bytes:
  fixes a b :: byte
  defines "n \<equiv> unat a * 1024 + unat b * 4"
  shows "(of_nat (n div 1024) :: byte) = a" "(of_nat (n div 4) :: byte) = b"
proof -
  have lt: "unat b * 4 < 1024"
    using unat_byte_lt [of b] by simp
  have "n div 1024 = unat a"
    unfolding n_def using div_hi [OF lt, of "unat a"] by simp
  then show "(of_nat (n div 1024) :: byte) = a" by simp
  have "n = (unat b + 256 * unat a) * 4" unfolding n_def by simp
  then have "n div 4 = unat b + 256 * unat a" by simp
  then show "(of_nat (n div 4) :: byte) = b" by (simp only: byte_of_unat)
qed

lemma sextets_lt64: "s \<in> set (sextets bs) \<Longrightarrow> s < 64"
proof (induction bs arbitrary: s rule: sextets.induct)
  case (1 a b c rest)
  have "unat a < 256" "unat b < 256" "unat c < 256"
    by (rule unat_byte_lt)+
  then have "(unat a * 65536 + unat b * 256 + unat c) div 262144 < 64" by simp
  with 1 show ?case by (auto simp: Let_def)
next
  case (2 a b)
  have "unat a < 256" "unat b < 256"
    by (rule unat_byte_lt)+
  then have "(unat a * 1024 + unat b * 4) div 4096 < 64" by simp
  with 2 show ?case by (auto simp: Let_def)
next
  case (3 a)
  have "unat a < 256" by (rule unat_byte_lt)
  then have "(unat a * 16) div 64 < 64" by simp
  with 3 show ?case by (auto simp: Let_def)
next
  case 4
  then show ?case by simp
qed

lemma unsextets_group4:
  "unsextets ([n div 262144, n div 4096 mod 64, n div 64 mod 64, n mod 64] @ ss) =
     map_option (\<lambda>bs. of_nat (n div 65536) # of_nat (n div 256) # of_nat n # bs) (unsextets ss)"
  by (simp add: Let_def regroup4)

lemma unsextets_group3:
  "unsextets [n div 4096, n div 64 mod 64, n mod 64] = Some [of_nat (n div 1024), of_nat (n div 4)]"
  by (simp add: Let_def regroup3)

lemma unsextets_group2:
  "unsextets [n div 64, n mod 64] = Some [of_nat (n div 16)]"
  by (simp add: Let_def)

lemma unsextets_sextets: "unsextets (sextets bs) = Some bs"
proof (induction bs rule: sextets.induct)
  case (1 a b c rest)
  show ?case
    unfolding sextets.simps Let_def unsextets_group4 triple_bytes
    using 1 by simp
next
  case (2 a b)
  show ?case
    unfolding sextets.simps Let_def unsextets_group3 pair_bytes ..
next
  case (3 a)
  have "(of_nat (unat a * 16 div 16) :: byte) = a" by simp
  then show ?case
    unfolding sextets.simps Let_def unsextets_group2 by (simp only:)
next
  case 4
  show ?case by simp
qed

lemma index_of_nth: "distinct xs \<Longrightarrow> i < length xs \<Longrightarrow> index_of (xs ! i) xs = Some i"
proof (induction xs arbitrary: i)
  case Nil
  then show ?case by simp
next
  case (Cons x xs)
  show ?case
  proof (cases i)
    case 0
    then show ?thesis by simp
  next
    case (Suc j)
    with Cons.prems have "xs ! j \<in> set xs" "x \<notin> set xs" by auto
    then have "xs ! j \<noteq> x" by auto
    with Suc Cons show ?thesis by simp
  qed
qed

lemma distinct_b64url: "distinct b64url_alphabet"
  by (simp add: b64url_alphabet_def)

lemma length_b64url: "length b64url_alphabet = 64"
  by (simp add: b64url_alphabet_def)

lemma length_b64: "length b64_alphabet = 64"
  by (simp add: b64_alphabet_def)


lemma replace_all_single: "replace_all c [d] s = map (\<lambda>x. if x = c then d else x) s"
  by (induction s) (simp_all add: replace_all_def)

lemma replace_all_absent: "c \<notin> set s \<Longrightarrow> replace_all c r s = s"
  by (induction s) (auto simp: replace_all_def)

lemma replace_all_append: "replace_all c r (s @ t) = replace_all c r s @ replace_all c r t"
  by (simp add: replace_all_def)

lemma replace_all_padding: "replace_all c [] (replicate k c) = []"
  by (induction k) (simp_all add: replace_all_def)

lemma b64_no_padding_char: "CHR ''='' \<notin> set b64_alphabet"
  by (simp add: b64_alphabet_def)

lemma b64_to_b64url:
  "map (\<lambda>x. if x = CHR ''/'' then CHR ''_'' else x)
     (map (\<lambda>x. if x = CHR ''+'' then CHR ''-'' else x) b64_alphabet) = b64url_alphabet"
  by (simp add: b64_alphabet_def b64url_alphabet_def)

lemma b64url_nth:
  assumes "s < 64"
  shows "(\<lambda>x. if x = CHR ''/'' then CHR ''_'' else x)
           ((\<lambda>x. if x = CHR ''+'' then CHR ''-'' else x) (b64_alphabet ! s)) = b64url_alphabet ! s"
proof -
  have "b64url_alphabet ! s =
      map (\<lambda>x. if x = CHR ''/'' then CHR ''_'' else x)
       (map (\<lambda>x. if x = CHR ''+'' then CHR ''-'' else x) b64_alphabet) ! s"
    by (simp only: b64_to_b64url)
  also have "\<dots> = (\<lambda>x. if x = CHR ''/'' then CHR ''_'' else x)
           ((\<lambda>x. if x = CHR ''+'' then CHR ''-'' else x) (b64_alphabet ! s))"
    using assms by (simp add: length_b64)
  finally show ?thesis by simp
qed

lemma base64url_encode_sextets:
  "base64url_encode bs = map (\<lambda>s. b64url_alphabet ! s) (sextets bs)"
proof -
  let ?body = "map (\<lambda>s. b64_alphabet ! s) (sextets bs)"
  have "set ?body \<subseteq> set b64_alphabet"
    using sextets_lt64 [of _ bs] by (auto simp: length_b64)
  then have "CHR ''='' \<notin> set ?body"
    using b64_no_padding_char by blast
  then have "replace_all (CHR ''='') [] (base64_encode bs) = ?body"
    by (simp add: base64_encode_def replace_all_append replace_all_padding replace_all_absent)
  then have "base64url_encode bs =
      map (\<lambda>x. if x = CHR ''/'' then CHR ''_'' else x)
       (map (\<lambda>x. if x = CHR ''+'' then CHR ''-'' else x) ?body)"
    by (simp add: base64url_encode_def replace_all_single)
  also have "\<dots> = map (\<lambda>s. b64url_alphabet ! s) (sextets bs)"
    using sextets_lt64 [of _ bs] b64url_nth by (simp add: comp_def)
  finally show ?thesis .
qed

lemma base64url_encode_alphabet: "set (base64url_encode bs) \<subseteq> set b64url_alphabet"
  using sextets_lt64 [of _ bs] by (auto simp: base64url_encode_sextets length_b64url)

lemma b64url_alphabet_plain:
  "c \<in> set b64url_alphabet \<Longrightarrow>
     c \<noteq> CHR ''.'' \<and> c \<noteq> CHR ''+'' \<and> c \<noteq> CHR ''/'' \<and> c \<noteq> CHR ''=''"
  by (auto simp: b64url_alphabet_def)

lemma those_index_of:
  "\<forall>s \<in> set ss. s < 64 \<Longrightarrow>
     those (map (\<lambda>c. index_of c b64url_alphabet) (map (\<lambda>s. b64url_alphabet ! s) ss)) = Some ss"
  by (induction ss) (simp_all add: index_of_nth distinct_b64url length_b64url)

lemma base64url_decode_encode: "base64url_decode (base64url_encode bs) = Some bs"
proof -
  have "\<forall>s \<in> set (sextets bs). s < 64"
    using sextets_lt64 by blast
  then have "those (map (\<lambda>c. index_of c b64url_alphabet) (base64url_encode bs)) = Some (sextets bs)"
    unfolding base64url_encode_sextets by (rule those_index_of)
  then show ?thesis
    unfolding base64url_decode_def by (simp add: unsextets_sextets)
qed

lemma encode_signature_eq: "encode_signature bs = base64url_encode bs"
proof -
  have "\<forall>c \<in> set (base64url_encode bs). c \<noteq> CHR ''+'' \<and> c \<noteq> CHR ''/'' \<and> c \<noteq> CHR ''=''"
    using base64url_encode_alphabet [of bs] b64url_alphabet_plain by blast
  then have "CHR ''+'' \<notin> set (base64url_encode bs)" "CHR ''/'' \<notin> set (base64url_encode bs)"
    "CHR ''='' \<notin> set (base64url_encode bs)"
    by blast+
  then show ?thesis
    by (simp add: encode_signature_def replace_all_absent)
qed

lemma split_on_plain: "c \<notin> set s \<Longrightarrow> split_on c s = [s]"
  by (induction s) auto

lemma split_on_segment: "c \<notin> set s \<Longrightarrow> split_on c (s @ c # t) = s # split_on c t"
  by (induction s) auto

lemma count_list_absent: "c \<notin> set s \<Longrightarrow> count_list s c = 0"
  by (induction s) auto

subsection \<open>Tokens\<close>

lemma sign_returns_token:
  assumes "outcome (signJWTWithKMSKey client pf header payload) = Returned (Some token)"
  obtains header_json payload_json found resp signature where
    "JSON_stringify pf header = Inr header_json"
    "JSON_stringify pf payload = Inr payload_json"
    "retrieveJWK pf (header_kid pf header) = Inr found"
    "client (SignCommand (kms_id found)
       (utf8_encode (base64url_encode (utf8_encode header_json) @ ''.''
          @ base64url_encode (utf8_encode payload_json)))
       ''RAW'' ''RSASSA_PKCS1_V1_5_SHA_256'') = Inr (Some resp)"
    "Signature resp = Some signature"
    "token = base64url_encode (utf8_encode header_json) @ ''.''
       @ base64url_encode (utf8_encode payload_json) @ ''.'' @ base64url_encode signature"
    "sent (signJWTWithKMSKey client pf header payload) =
       [SignCommand (kms_id found)
         (utf8_encode (base64url_encode (utf8_encode header_json) @ ''.''
            @ base64url_encode (utf8_encode payload_json)))
         ''RAW'' ''RSASSA_PKCS1_V1_5_SHA_256'']"
  using assms unfolding signJWTWithKMSKey_def
  by (auto simp: Let_def encode_signature_eq Option.bind_eq_Some_conv
      split: sum.splits option.splits)

lemma dot_not_in_segment: "CHR ''.'' \<notin> set (base64url_encode bs)"
  using base64url_encode_alphabet [of bs] b64url_alphabet_plain by blast

lemma split_token:
  "split_on (CHR ''.'') (base64url_encode a @ ''.'' @ base64url_encode b @ ''.'' @ base64url_encode c)
     = [base64url_encode a, base64url_encode b, base64url_encode c]"
  using split_on_segment [OF dot_not_in_segment] split_on_plain [OF dot_not_in_segment]
  by simp

lemma count_token:
  "count_list (base64url_encode a @ ''.'' @ base64url_encode b @ ''.'' @ base64url_encode c)
     (CHR ''.'') = 2"
  using count_list_absent [OF dot_not_in_segment] by simp

subsection \<open>Scenario B, evaluated\<close>

lemma scenario_header_json:
  \<open>JSON_stringify scenario_platform scenario_header = Inr ''{"kid":"abc123"}''\<close>
  by (simp add: scenario_platform_def scenario_header_def scenario_stringify_def)

lemma scenario_payload_json:
  \<open>JSON_stringify scenario_platform scenario_payload = Inr ''{"sub":"user1"}''\<close>
  by (simp add: scenario_platform_def scenario_payload_def scenario_stringify_def)

lemma scenario_header_segment:
  \<open>base64url_encode (utf8_encode ''{"kid":"abc123"}'') = ''eyJraWQiOiJhYmMxMjMifQ''\<close>
  by (simp add: utf8_encode_def base64url_encode_def base64_encode_def replace_all_def
      b64_alphabet_def)

lemma scenario_payload_segment:
  \<open>base64url_encode (utf8_encode ''{"sub":"user1"}'') = ''eyJzdWIiOiJ1c2VyMSJ9''\<close>
  by (simp add: utf8_encode_def base64url_encode_def base64_encode_def replace_all_def
      b64_alphabet_def)

lemma scenario_signature_segment: "base64url_encode [0xAA, 0xBB, 0xCC] = ''qrvM''"
  by (simp add: base64url_encode_def base64_encode_def replace_all_def b64_alphabet_def)

lemma scenario_jwk:
  "retrieveJWK scenario_platform (header_kid scenario_platform scenario_header)
     = Inr \<lparr>kms_id = ''kms-1'', active = True\<rparr>"
  by (simp add: scenario_platform_def scenario_header_def)

lemma stub_client_sign:
  "stub_client (SignCommand k message message_type algorithm)
     = Inr (Some (no_fields\<lparr>Signature := Some [0xAA, 0xBB, 0xCC]\<rparr>))"
  by (simp add: stub_client_def)

lemma scenario_B_run:
  "signJWTWithKMSKey stub_client scenario_platform scenario_header scenario_payload =
     \<lparr>outcome = Returned (Some ''eyJraWQiOiJhYmMxMjMifQ.eyJzdWIiOiJ1c2VyMSJ9.qrvM''),
      sent = [SignCommand ''kms-1''
                (utf8_encode ''eyJraWQiOiJhYmMxMjMifQ.eyJzdWIiOiJ1c2VyMSJ9'') ''RAW''
                ''RSASSA_PKCS1_V1_5_SHA_256''],
      logged = []\<rparr>"
  by (simp add: signJWTWithKMSKey_def scenario_header_json scenario_payload_json
      scenario_header_segment scenario_payload_segment scenario_jwk stub_client_sign
      encode_signature_eq scenario_signature_segment no_fields_def)

subsection \<open>Encodings of non-empty byte arrays\<close>

lemma sextets_nonempty: "bs \<noteq> [] \<Longrightarrow> sextets bs \<noteq> []"
  by (induction bs rule: sextets.induct) (simp_all add: Let_def)

lemma base64url_encode_nonempty: "bs \<noteq> [] \<Longrightarrow> base64url_encode bs \<noteq> []"
  by (simp add: base64url_encode_sextets sextets_nonempty)

lemma base64_encode_nonempty: "bs \<noteq> [] \<Longrightarrow> base64_encode bs \<noteq> []"
  by (simp add: base64_encode_def sextets_nonempty)

subsection \<open>Signing against failing and degenerate stubs\<close>

lemma scenario_failing_run:
  "signJWTWithKMSKey failing_client scenario_platform scenario_header scenario_payload =
     \<lparr>outcome = Returned None,
      sent = [SignCommand ''kms-1''
                (utf8_encode ''eyJraWQiOiJhYmMxMjMifQ.eyJzdWIiOiJ1c2VyMSJ9'') ''RAW''
                ''RSASSA_PKCS1_V1_5_SHA_256''],
      logged = [(''Error signing JWT:'', ServiceError ''AccessDeniedException'')]\<rparr>"
  by (simp add: signJWTWithKMSKey_def scenario_header_json scenario_payload_json
      scenario_header_segment scenario_payload_segment scenario_jwk failing_client_def)

lemma zero_length_client_sign:
  "zero_length_client (SignCommand k message message_type algorithm)
     = Inr (Some (no_fields\<lparr>Signature := Some []\<rparr>))"
  by (simp add: zero_length_client_def)

lemma base64url_encode_Nil: "base64url_encode [] = []"
  by (simp add: base64url_encode_sextets)

lemma scenario_zero_length_run:
  "signJWTWithKMSKey zero_length_client scenario_platform scenario_header scenario_payload =
     \<lparr>outcome = Returned (Some ''eyJraWQiOiJhYmMxMjMifQ.eyJzdWIiOiJ1c2VyMSJ9.''),
      sent = [SignCommand ''kms-1''
                (utf8_encode ''eyJraWQiOiJhYmMxMjMifQ.eyJzdWIiOiJ1c2VyMSJ9'') ''RAW''
                ''RSASSA_PKCS1_V1_5_SHA_256''],
      logged = []\<rparr>"
  by (simp add: signJWTWithKMSKey_def scenario_header_json scenario_payload_json
      scenario_header_segment scenario_payload_segment scenario_jwk zero_length_client_sign
      encode_signature_eq base64url_encode_Nil no_fields_def)

lemma sign_failure_no_token:
  assumes "(\<exists>e. retrieveJWK pf (header_kid pf header) = Inl e)
         \<or> (\<exists>cmd e. sent (signJWTWithKMSKey client pf header payload) = [cmd]
                \<and> client cmd = Inl e)
         \<or> (\<exists>cmd. sent (signJWTWithKMSKey client pf header payload) = [cmd]
                \<and> client cmd = Inr None)
         \<or> (\<exists>cmd resp. sent (signJWTWithKMSKey client pf header payload) = [cmd]
                \<and> client cmd = Inr (Some resp) \<and> Signature resp = None)"
  shows "outcome (signJWTWithKMSKey client pf header payload) \<noteq> Returned (Some token)"
proof
  assume "outcome (signJWTWithKMSKey client pf header payload) = Returned (Some token)"
  then obtain header_json payload_json found resp signature where
    "JSON_stringify pf header = Inr header_json" and
    "JSON_stringify pf payload = Inr payload_json" and
    j: "retrieveJWK pf (header_kid pf header) = Inr found" and
    c: "client (SignCommand (kms_id found)
       (utf8_encode (base64url_encode (utf8_encode header_json) @ ''.''
          @ base64url_encode (utf8_encode payload_json)))
       ''RAW'' ''RSASSA_PKCS1_V1_5_SHA_256'') = Inr (Some resp)" and
    g: "Signature resp = Some signature" and
    "token = base64url_encode (utf8_encode header_json) @ ''.''
       @ base64url_encode (utf8_encode payload_json) @ ''.'' @ base64url_encode signature" and
    s: "sent (signJWTWithKMSKey client pf header payload) =
       [SignCommand (kms_id found)
         (utf8_encode (base64url_encode (utf8_encode header_json) @ ''.''
            @ base64url_encode (utf8_encode payload_json)))
         ''RAW'' ''RSASSA_PKCS1_V1_5_SHA_256'']"
    by (rule sign_returns_token)
  from assms j c g show False
    unfolding s by auto
qed

subsection \<open>Key creation\<close>

lemma length_base64_groups:
  "(length (sextets bs) + (3 - length bs mod 3) mod 3) mod 4 = 0"
proof (induction bs rule: sextets.induct)
  case (1 a b c rest)
  have "length (a # b # c # rest) = length rest + 3"
    by simp
  then have l: "length (a # b # c # rest) mod 3 = length rest mod 3"
    by (simp only: mod_add_self2)
  have s: "length (sextets (a # b # c # rest)) = 4 + length (sextets rest)"
    by (simp add: Let_def)
  show ?case
    using 1 by (simp only: l s add.assoc mod_add_self1)
next
  case (2 a b)
  show ?case by (simp add: Let_def)
next
  case (3 a)
  show ?case by (simp add: Let_def)
next
  case 4
  show ?case by simp
qed

lemma takeWhile_padding:
  "\<forall>c \<in> set xs. c \<noteq> x \<Longrightarrow> takeWhile (\<lambda>c. c \<noteq> x) (xs @ replicate k x) = xs"
  by (induction xs) (cases k, simp_all)

lemma dropWhile_padding:
  "\<forall>c \<in> set xs. c \<noteq> x \<Longrightarrow>
     dropWhile (\<lambda>c. c \<noteq> x) (xs @ replicate k x) = replicate k x"
  by (induction xs) (cases k, simp_all)

lemma valid_base64_encode: "valid_base64 (base64_encode bs)"
proof -
  let ?body = "map (\<lambda>s. b64_alphabet ! s) (sextets bs)"
  let ?pad = "replicate ((3 - length bs mod 3) mod 3) (CHR ''='')"
  have body: "\<forall>c \<in> set ?body. c \<in> set b64_alphabet"
    using sextets_lt64 [of _ bs] by (auto simp: length_b64)
  then have no_pad: "\<forall>c \<in> set ?body. c \<noteq> CHR ''=''"
    using b64_no_padding_char by blast
  have tw: "takeWhile (\<lambda>c. c \<noteq> CHR ''='') (?body @ ?pad) = ?body"
    using no_pad by (rule takeWhile_padding)
  have dw: "dropWhile (\<lambda>c. c \<noteq> CHR ''='') (?body @ ?pad) = ?pad"
    using no_pad by (rule dropWhile_padding)
  have len: "length (?body @ ?pad) mod 4 = 0"
    using length_base64_groups [of bs] by simp
  have pad: "length ?pad \<le> 2" "list_all (\<lambda>c. c = CHR ''='') ?pad"
    by (simp_all add: list_all_iff)
  have "list_all (\<lambda>c. c \<in> set b64_alphabet) ?body"
    using body by (simp add: list_all_iff)
  then show ?thesis
    unfolding valid_base64_def base64_encode_def Let_def tw dw
    using len pad by blast
qed

lemma create_returns_key:
  assumes "outcome (createKMSKey client pf alg) = Returned (Some key)"
  obtains policy created key_id fetched key_bytes where
    "client (CreateKeyCommand alg ''SIGN_VERIFY''
       (''Developer Portal JWK for Sign in with Worldcoin. Created: ''
          @ Date_now_toISOString pf)
       policy [(''app'', ''developer-portal'')]) = Inr (Some created)"
    "Option.bind (KeyMetadata created) KeyId = Some key_id"
    "key_id \<noteq> []"
    "client (GetPublicKeyCommand key_id) = Inr (Some fetched)"
    "PublicKey fetched = Some key_bytes"
    "key = \<lparr>keyId = key_id,
            publicKey = pem_header @ ''\<newline>'' @ base64_encode key_bytes @ ''\<newline>''
              @ pem_footer\<rparr>"
    "sent (createKMSKey client pf alg) =
       [CreateKeyCommand alg ''SIGN_VERIFY''
          (''Developer Portal JWK for Sign in with Worldcoin. Created: ''
             @ Date_now_toISOString pf)
          policy [(''app'', ''developer-portal'')],
        GetPublicKeyCommand key_id]"
  using assms unfolding createKMSKey_def
  by (auto simp: Let_def split: sum.splits option.splits if_splits)

lemma create_never_throws: "outcome (createKMSKey client pf alg) \<noteq> Thrown e"
  unfolding createKMSKey_def
  by (auto simp: Let_def split: sum.splits option.splits if_splits)


lemma scenario_expiry:
  "toISOString (dayjs_add_day scenario_platform (dayjs_now scenario_platform)
     (JWK_TIME_TO_LIVE scenario_platform)) = Inr ''2024-03-31T00:00:00.000Z''"
proof -
  have "dayjs_add_day scenario_platform (dayjs_now scenario_platform)
      (JWK_TIME_TO_LIVE scenario_platform) = Some 1711843200000"
    by (simp add: scenario_platform_def)
  moreover have "toISOString (Some 1711843200000) = Inr ''2024-03-31T00:00:00.000Z''"
    by code_simp
  ultimately show ?thesis
    by simp
qed

lemma scenario_policy:
  "kmsKeyPolicy scenario_platform
     (dayjs_add_day scenario_platform (dayjs_now scenario_platform)
        (JWK_TIME_TO_LIVE scenario_platform))
     = Inr (policy_text ''arn:aws:iam::123456789012:role/kms'' ''2024-03-31T00:00:00.000Z'')"
  by (simp add: kmsKeyPolicy_def scenario_expiry) (simp add: scenario_platform_def interpolate_def)

lemma scenario_now: "Date_now_toISOString scenario_platform = ''2024-01-01T00:00:00.000Z''"
  by (simp add: scenario_platform_def)

lemma replicate_two: "replicate 2 x = [x, x]"
  by (simp add: numeral_2_eq_2)

lemma stub_public_key: "base64_encode [0x30, 0x82, 0x01, 0x22] = ''MIIBIg==''"
  by (simp add: base64_encode_def b64_alphabet_def replicate_two)

lemma base64_encode_Nil: "base64_encode [] = []"
  by (simp add: base64_encode_def)

lemma scenario_create_run:
  "outcome (createKMSKey stub_client scenario_platform ''RSA_2048'') =
     Returned (Some \<lparr>keyId = ''abc123'',
       publicKey =
         ''-----BEGIN PUBLIC KEY-----\<newline>MIIBIg==\<newline>-----END PUBLIC KEY-----''\<rparr>)"
  by (simp add: createKMSKey_def scenario_policy stub_client_def no_fields_def stub_public_key
      pem_header_def pem_footer_def)

lemma scenario_create_zero_length_run:
  "createKMSKey zero_length_client scenario_platform ''RSA_2048'' =
     \<lparr>outcome = Returned (Some \<lparr>keyId = ''abc123'',
        publicKey = ''-----BEGIN PUBLIC KEY-----\<newline>\<newline>-----END PUBLIC KEY-----''\<rparr>),
      sent = [CreateKeyCommand ''RSA_2048'' ''SIGN_VERIFY''
               ''Developer Portal JWK for Sign in with Worldcoin. Created: 2024-01-01T00:00:00.000Z''
               (policy_text ''arn:aws:iam::123456789012:role/kms''
                  ''2024-03-31T00:00:00.000Z'')
               [(''app'', ''developer-portal'')],
              GetPublicKeyCommand ''abc123''],
      logged = []\<rparr>"
  by (simp add: createKMSKey_def scenario_policy scenario_now zero_length_client_def
      no_fields_def base64_encode_Nil pem_header_def pem_footer_def)

lemma scenario_create_failing_run:
  "createKMSKey failing_client scenario_platform ''RSA_2048'' =
     \<lparr>outcome = Returned None,
      sent = [CreateKeyCommand ''RSA_2048'' ''SIGN_VERIFY''
               ''Developer Portal JWK for Sign in with Worldcoin. Created: 2024-01-01T00:00:00.000Z''
               (policy_text ''arn:aws:iam::123456789012:role/kms''
                  ''2024-03-31T00:00:00.000Z'')
               [(''app'', ''developer-portal'')]],
      logged = [(''Error creating key:'', ServiceError ''AccessDeniedException'')]\<rparr>"
  by (simp add: createKMSKey_def scenario_policy scenario_now failing_client_def)

lemma create_failure_no_key:
  assumes "(\<exists>create rest e. sent (createKMSKey client pf alg) = create # rest
              \<and> client create = Inl e)
         \<or> (\<exists>create rest. sent (createKMSKey client pf alg) = create # rest
              \<and> (client create = Inr None
                   \<or> (\<exists>resp. client create = Inr (Some resp)
                         \<and> (Option.bind (KeyMetadata resp) KeyId = None
                          \<or> Option.bind (KeyMetadata resp) KeyId = Some []))))
         \<or> (\<exists>create fetch e. sent (createKMSKey client pf alg) = [create, fetch]
              \<and> client fetch = Inl e)
         \<or> (\<exists>create fetch. sent (createKMSKey client pf alg) = [create, fetch]
              \<and> (client fetch = Inr None
                   \<or> (\<exists>resp. client fetch = Inr (Some resp) \<and> PublicKey resp = None)))"
  shows "outcome (createKMSKey client pf alg) = Returned None"
proof (rule ccontr)
  assume "outcome (createKMSKey client pf alg) \<noteq> Returned None"
  then obtain key where "outcome (createKMSKey client pf alg) = Returned (Some key)"
    using create_never_throws [of client pf alg]
    by (cases "outcome (createKMSKey client pf alg)") auto
  then obtain policy created key_id fetched key_bytes where
    c: "client (CreateKeyCommand alg ''SIGN_VERIFY''
       (''Developer Portal JWK for Sign in with Worldcoin. Created: ''
          @ Date_now_toISOString pf)
       policy [(''app'', ''developer-portal'')]) = Inr (Some created)" and
    k: "Option.bind (KeyMetadata created) KeyId = Some key_id" and
    n: "key_id \<noteq> []" and
    f: "client (GetPublicKeyCommand key_id) = Inr (Some fetched)" and
    b: "PublicKey fetched = Some key_bytes" and
    "key = \<lparr>keyId = key_id,
            publicKey = pem_header @ ''\<newline>'' @ base64_encode key_bytes @ ''\<newline>''
              @ pem_footer\<rparr>" and
    s: "sent (createKMSKey client pf alg) =
       [CreateKeyCommand alg ''SIGN_VERIFY''
          (''Developer Portal JWK for Sign in with Worldcoin. Created: ''
             @ Date_now_toISOString pf)
          policy [(''app'', ''developer-portal'')],
        GetPublicKeyCommand key_id]"
    by (rule create_returns_key)
  from assms c k n f b show False
    unfolding s by auto
qed

subsection \<open>The policy document\<close>

lemma tokens_literal:
  "plain_text s \<Longrightarrow> tokens (Some literal) (s @ rest) = tokens (Some (literal @ s)) rest"
  by (induction s arbitrary: literal) (simp_all add: plain_text_def plain_char_def)

lemma policy_text_tokens:
  assumes "plain_text arn" "plain_text instant"
  shows "tokens None (policy_text arn instant) =
    Some [LBrace, Quoted ''Version'', Colon, Quoted ''2012-10-17'', Comma,
          Quoted ''Id'', Colon, Quoted ''key-default-1'', Comma,
          Quoted ''Statement'', Colon, LBracket, LBrace,
          Quoted ''Sid'', Colon, Quoted ''AllowAccessUntilExpirationDate'', Comma,
          Quoted ''Effect'', Colon, Quoted ''Allow'', Comma,
          Quoted ''Principal'', Colon, LBrace, Quoted ''AWS'', Colon, Quoted arn, RBrace, Comma,
          Quoted ''Action'', Colon, LBracket,
          Quoted ''kms:CreateKey'', Comma, Quoted ''kms:TagResource'', Comma,
          Quoted ''kms:DescribeKey'', Comma, Quoted ''kms:PutKeyPolicy'', Comma,
          Quoted ''kms:GetPublicKey'', Comma, Quoted ''kms:Sign'', Comma,
          Quoted ''kms:Verify'', Comma, Quoted ''kms:ScheduleKeyDeletion'', RBracket, Comma,
          Quoted ''Resource'', Colon, Quoted ''*'', Comma,
          Quoted ''Condition'', Colon, LBrace, Quoted ''DateLessThan'', Colon, LBrace,
          Quoted ''aws:CurrentTime'', Colon, Quoted instant, RBrace, RBrace, RBrace,
          RBracket, RBrace]"
  unfolding policy_text_def
  by (simp add: tokens_literal [OF assms(1)] tokens_literal [OF assms(2)] json_space_def
      plain_char_def)

lemma policy_text_parse:
  assumes "plain_text arn" "plain_text instant"
  shows "JSON_parse (policy_text arn instant) =
    Some (JObject
      [(''Version'', JString ''2012-10-17''),
       (''Id'', JString ''key-default-1''),
       (''Statement'', JArray
         [JObject
           [(''Sid'', JString ''AllowAccessUntilExpirationDate''),
            (''Effect'', JString ''Allow''),
            (''Principal'', JObject [(''AWS'', JString arn)]),
            (''Action'', JArray
              [JString ''kms:CreateKey'', JString ''kms:TagResource'',
               JString ''kms:DescribeKey'', JString ''kms:PutKeyPolicy'',
               JString ''kms:GetPublicKey'', JString ''kms:Sign'', JString ''kms:Verify'',
               JString ''kms:ScheduleKeyDeletion'']),
            (''Resource'', JString ''*''),
            (''Condition'', JObject
              [(''DateLessThan'', JObject [(''aws:CurrentTime'', JString instant)])])]])])"
  unfolding JSON_parse_def policy_text_tokens [OF assms]
  by simp

lemma policy_text_inject: "policy_text arn a = policy_text arn b \<longleftrightarrow> a = b"
  unfolding policy_text_def by simp

lemma unescaped_policy:
  \<open>kmsKeyPolicy unescaped_platform (Some 1711843200000)
     = Inr (policy_text ''arn:aws:iam::123456789012:role/a"b'' ''2024-03-31T00:00:00.000Z'')\<close>
proof -
  have "toISOString (Some 1711843200000) = Inr ''2024-03-31T00:00:00.000Z''"
    by code_simp
  then show ?thesis
    by (simp add: kmsKeyPolicy_def) (simp add: unescaped_platform_def interpolate_def)
qed

lemma unescaped_policy_rejected:
  \<open>JSON_parse (policy_text ''arn:aws:iam::123456789012:role/a"b'' ''2024-03-31T00:00:00.000Z'')
     = None\<close>
  unfolding JSON_parse_def policy_text_def
  by (simp add: json_space_def plain_char_def)

section \<open>The claims\<close>

text \<open>
  C1. Whenever \<open>signJWTWithKMSKey\<close> returns a token, the token has exactly two dots;
  split at the dots, its first two segments are the unpadded base64url encodings of the
  JSON serialisations of the header and of the payload, and decoding them gives back the
  bytes of those serialisations; all three segments are written in the URL-safe alphabet,
  and the third holds none of the characters \<^verbatim>\<open>+\<close>, \<^verbatim>\<open>/\<close> and \<^verbatim>\<open>=\<close>.
\<close>

theorem signJWTWithKMSKey_token_shape:
  assumes "outcome (signJWTWithKMSKey client pf header payload) = Returned (Some token)"
  shows "\<exists>header_json payload_json segment1 segment2 segment3.
           JSON_stringify pf header = Inr header_json
         \<and> JSON_stringify pf payload = Inr payload_json
         \<and> count_list token (CHR ''.'') = 2
         \<and> split_on (CHR ''.'') token = [segment1, segment2, segment3]
         \<and> segment1 = base64url_encode (utf8_encode header_json)
         \<and> segment2 = base64url_encode (utf8_encode payload_json)
         \<and> base64url_decode segment1 = Some (utf8_encode header_json)
         \<and> base64url_decode segment2 = Some (utf8_encode payload_json)
         \<and> set segment1 \<subseteq> set b64url_alphabet
         \<and> set segment2 \<subseteq> set b64url_alphabet
         \<and> set segment3 \<subseteq> set b64url_alphabet
         \<and> CHR ''+'' \<notin> set segment3 \<and> CHR ''/'' \<notin> set segment3 \<and> CHR ''='' \<notin> set segment3"
proof -
  from assms obtain header_json payload_json signature where
    h: "JSON_stringify pf header = Inr header_json" and
    p: "JSON_stringify pf payload = Inr payload_json" and
    t: "token = base64url_encode (utf8_encode header_json) @ ''.''
       @ base64url_encode (utf8_encode payload_json) @ ''.'' @ base64url_encode signature"
    by (rule sign_returns_token)
  let ?s1 = "base64url_encode (utf8_encode header_json)"
  let ?s2 = "base64url_encode (utf8_encode payload_json)"
  let ?s3 = "base64url_encode signature"
  have plain: "CHR ''+'' \<notin> set ?s3" "CHR ''/'' \<notin> set ?s3" "CHR ''='' \<notin> set ?s3"
    using base64url_encode_alphabet [of signature] b64url_alphabet_plain by blast+
  have "JSON_stringify pf header = Inr header_json
         \<and> JSON_stringify pf payload = Inr payload_json
         \<and> count_list token (CHR ''.'') = 2
         \<and> split_on (CHR ''.'') token = [?s1, ?s2, ?s3]
         \<and> ?s1 = base64url_encode (utf8_encode header_json)
         \<and> ?s2 = base64url_encode (utf8_encode payload_json)
         \<and> base64url_decode ?s1 = Some (utf8_encode header_json)
         \<and> base64url_decode ?s2 = Some (utf8_encode payload_json)
         \<and> set ?s1 \<subseteq> set b64url_alphabet
         \<and> set ?s2 \<subseteq> set b64url_alphabet
         \<and> set ?s3 \<subseteq> set b64url_alphabet
         \<and> CHR ''+'' \<notin> set ?s3 \<and> CHR ''/'' \<notin> set ?s3 \<and> CHR ''='' \<notin> set ?s3"
    unfolding t
    by (simp only: h p plain split_token count_token base64url_decode_encode
        base64url_encode_alphabet simp_thms)
  then show ?thesis by (intro exI)
qed

theorem signJWTWithKMSKey_token_shape_witness:
  "outcome (signJWTWithKMSKey stub_client scenario_platform scenario_header scenario_payload)
     = Returned (Some ''eyJraWQiOiJhYmMxMjMifQ.eyJzdWIiOiJ1c2VyMSJ9.qrvM'')
   \<and> (\<exists>header_json payload_json segment1 segment2 segment3.
           JSON_stringify scenario_platform scenario_header = Inr header_json
         \<and> JSON_stringify scenario_platform scenario_payload = Inr payload_json
         \<and> count_list ''eyJraWQiOiJhYmMxMjMifQ.eyJzdWIiOiJ1c2VyMSJ9.qrvM'' (CHR ''.'') = 2
         \<and> split_on (CHR ''.'') ''eyJraWQiOiJhYmMxMjMifQ.eyJzdWIiOiJ1c2VyMSJ9.qrvM''
              = [segment1, segment2, segment3]
         \<and> segment1 = base64url_encode (utf8_encode header_json)
         \<and> segment2 = base64url_encode (utf8_encode payload_json)
         \<and> base64url_decode segment1 = Some (utf8_encode header_json)
         \<and> base64url_decode segment2 = Some (utf8_encode payload_json)
         \<and> set segment1 \<subseteq> set b64url_alphabet
         \<and> set segment2 \<subseteq> set b64url_alphabet
         \<and> set segment3 \<subseteq> set b64url_alphabet
         \<and> CHR ''+'' \<notin> set segment3 \<and> CHR ''/'' \<notin> set segment3 \<and> CHR ''='' \<notin> set segment3)"
proof -
  have run: "outcome (signJWTWithKMSKey stub_client scenario_platform scenario_header
      scenario_payload) = Returned (Some ''eyJraWQiOiJhYmMxMjMifQ.eyJzdWIiOiJ1c2VyMSJ9.qrvM'')"
    by (simp add: scenario_B_run)
  show ?thesis
    using run signJWTWithKMSKey_token_shape [OF run] by (rule conjI)
qed

text \<open>
  C8. Scenario B: the header serialises to some text and has the kid \<^verbatim>\<open>abc123\<close>, the JWK
  store resolves that kid to the KMS key \<^verbatim>\<open>kms-1\<close> (active), and the Sign command for that key
  over the signing input answers with the signature bytes AA BB CC. Then the call returns
  the two encoded segments followed by \<^verbatim>\<open>.qrvM\<close>: the signature segment is \<^verbatim>\<open>qrvM\<close>, the
  unpadded base64url encoding of the three bytes.
\<close>

theorem signJWTWithKMSKey_scenario_B:
  assumes "JSON_stringify pf header = Inr header_json"
      and "JSON_stringify pf payload = Inr payload_json"
      and "header_kid pf header = Some ''abc123''"
      and "retrieveJWK pf (Some ''abc123'') = Inr \<lparr>kms_id = ''kms-1'', active = True\<rparr>"
      and "client (SignCommand ''kms-1''
             (utf8_encode (base64url_encode (utf8_encode header_json) @ ''.''
                @ base64url_encode (utf8_encode payload_json)))
             ''RAW'' ''RSASSA_PKCS1_V1_5_SHA_256'') = Inr (Some resp)"
      and "Signature resp = Some [0xAA, 0xBB, 0xCC]"
  shows "outcome (signJWTWithKMSKey client pf header payload)
           = Returned (Some (base64url_encode (utf8_encode header_json) @ ''.''
               @ base64url_encode (utf8_encode payload_json) @ ''.qrvM''))
       \<and> encode_signature [0xAA, 0xBB, 0xCC] = ''qrvM''"
  using assms
  by (simp add: signJWTWithKMSKey_def encode_signature_eq scenario_signature_segment)

theorem signJWTWithKMSKey_scenario_B_witness:
  "outcome (signJWTWithKMSKey stub_client scenario_platform scenario_header scenario_payload)
     = Returned (Some ''eyJraWQiOiJhYmMxMjMifQ.eyJzdWIiOiJ1c2VyMSJ9.qrvM'')
   \<and> encode_signature [0xAA, 0xBB, 0xCC] = ''qrvM''"
proof -
  have kid: "header_kid scenario_platform scenario_header = Some ''abc123''"
    by (simp add: scenario_platform_def scenario_header_def)
  have jwk: "retrieveJWK scenario_platform (Some ''abc123'')
      = Inr \<lparr>kms_id = ''kms-1'', active = True\<rparr>"
    by (simp add: scenario_platform_def)
  have sig: "Signature (no_fields\<lparr>Signature := Some [0xAA, 0xBB, 0xCC]\<rparr>)
      = Some [0xAA, 0xBB, 0xCC]"
    by simp
  have sign: \<open>stub_client (SignCommand ''kms-1''
      (utf8_encode (base64url_encode (utf8_encode ''{"kid":"abc123"}'') @ ''.''
         @ base64url_encode (utf8_encode ''{"sub":"user1"}'')))
      ''RAW'' ''RSASSA_PKCS1_V1_5_SHA_256'')
      = Inr (Some (no_fields\<lparr>Signature := Some [0xAA, 0xBB, 0xCC]\<rparr>))\<close>
    by (rule stub_client_sign)
  show ?thesis
    using signJWTWithKMSKey_scenario_B
      [where pf = scenario_platform and header = scenario_header
         and payload = scenario_payload and client = stub_client
         and header_json = \<open>''{"kid":"abc123"}''\<close>
         and payload_json = \<open>''{"sub":"user1"}''\<close>
         and resp = "no_fields\<lparr>Signature := Some [0xAA, 0xBB, 0xCC]\<rparr>",
       OF scenario_header_json scenario_payload_json kid jwk sign sig]
    by (simp only: scenario_header_segment scenario_payload_segment append.simps)
qed

text \<open>
  C9. Whenever \<open>signJWTWithKMSKey\<close> returns a token, it has sent exactly one command, a
  Sign command whose message is the UTF-8 bytes of the token's first two segments joined
  by a dot; the token is that signing input followed by a dot and the encoding of the
  signature bytes the command was answered with.
\<close>

theorem signJWTWithKMSKey_signed_message:
  assumes "outcome (signJWTWithKMSKey client pf header payload) = Returned (Some token)"
  shows "\<exists>key_id message resp signature segment1 segment2 segment3.
           sent (signJWTWithKMSKey client pf header payload)
             = [SignCommand key_id message ''RAW'' ''RSASSA_PKCS1_V1_5_SHA_256'']
         \<and> split_on (CHR ''.'') token = [segment1, segment2, segment3]
         \<and> message = utf8_encode (segment1 @ ''.'' @ segment2)
         \<and> client (SignCommand key_id message ''RAW'' ''RSASSA_PKCS1_V1_5_SHA_256'')
             = Inr (Some resp)
         \<and> Signature resp = Some signature
         \<and> segment3 = base64url_encode signature
         \<and> token = segment1 @ ''.'' @ segment2 @ ''.'' @ segment3"
proof -
  from assms obtain header_json payload_json found resp signature where
    "JSON_stringify pf header = Inr header_json" and
    "JSON_stringify pf payload = Inr payload_json" and
    "retrieveJWK pf (header_kid pf header) = Inr found" and
    c: "client (SignCommand (kms_id found)
       (utf8_encode (base64url_encode (utf8_encode header_json) @ ''.''
          @ base64url_encode (utf8_encode payload_json)))
       ''RAW'' ''RSASSA_PKCS1_V1_5_SHA_256'') = Inr (Some resp)" and
    g: "Signature resp = Some signature" and
    t: "token = base64url_encode (utf8_encode header_json) @ ''.''
       @ base64url_encode (utf8_encode payload_json) @ ''.'' @ base64url_encode signature" and
    s: "sent (signJWTWithKMSKey client pf header payload) =
       [SignCommand (kms_id found)
         (utf8_encode (base64url_encode (utf8_encode header_json) @ ''.''
            @ base64url_encode (utf8_encode payload_json)))
         ''RAW'' ''RSASSA_PKCS1_V1_5_SHA_256'']"
    by (rule sign_returns_token)
  let ?s1 = "base64url_encode (utf8_encode header_json)"
  let ?s2 = "base64url_encode (utf8_encode payload_json)"
  let ?m = "utf8_encode (?s1 @ ''.'' @ ?s2)"
  have "sent (signJWTWithKMSKey client pf header payload)
             = [SignCommand (kms_id found) ?m ''RAW'' ''RSASSA_PKCS1_V1_5_SHA_256'']
         \<and> split_on (CHR ''.'') token = [?s1, ?s2, base64url_encode signature]
         \<and> ?m = utf8_encode (?s1 @ ''.'' @ ?s2)
         \<and> client (SignCommand (kms_id found) ?m ''RAW'' ''RSASSA_PKCS1_V1_5_SHA_256'')
             = Inr (Some resp)
         \<and> Signature resp = Some signature
         \<and> base64url_encode signature = base64url_encode signature
         \<and> token = ?s1 @ ''.'' @ ?s2 @ ''.'' @ base64url_encode signature"
    using c g s unfolding t by (simp only: split_token simp_thms)
  then show ?thesis by (intro exI)
qed

theorem signJWTWithKMSKey_signed_message_witness:
  "outcome (signJWTWithKMSKey stub_client scenario_platform scenario_header scenario_payload)
     = Returned (Some ''eyJraWQiOiJhYmMxMjMifQ.eyJzdWIiOiJ1c2VyMSJ9.qrvM'')
   \<and> (\<exists>key_id message resp signature segment1 segment2 segment3.
           sent (signJWTWithKMSKey stub_client scenario_platform scenario_header
                   scenario_payload)
             = [SignCommand key_id message ''RAW'' ''RSASSA_PKCS1_V1_5_SHA_256'']
         \<and> split_on (CHR ''.'') ''eyJraWQiOiJhYmMxMjMifQ.eyJzdWIiOiJ1c2VyMSJ9.qrvM''
             = [segment1, segment2, segment3]
         \<and> message = utf8_encode (segment1 @ ''.'' @ segment2)
         \<and> stub_client (SignCommand key_id message ''RAW'' ''RSASSA_PKCS1_V1_5_SHA_256'')
             = Inr (Some resp)
         \<and> Signature resp = Some signature
         \<and> segment3 = base64url_encode signature
         \<and> ''eyJraWQiOiJhYmMxMjMifQ.eyJzdWIiOiJ1c2VyMSJ9.qrvM''
             = segment1 @ ''.'' @ segment2 @ ''.'' @ segment3)"
proof -
  have run: "outcome (signJWTWithKMSKey stub_client scenario_platform scenario_header
      scenario_payload) = Returned (Some ''eyJraWQiOiJhYmMxMjMifQ.eyJzdWIiOiJ1c2VyMSJ9.qrvM'')"
    by (simp add: scenario_B_run)
  show ?thesis
    using run signJWTWithKMSKey_signed_message [OF run] by (rule conjI)
qed

text \<open>
  C4, as the code has it. When the JWK lookup fails, or the Sign command is rejected, or
  its response is \<^verbatim>\<open>undefined\<close> or has no \<^verbatim>\<open>Signature\<close> field, no token is returned. A
  token that is returned comes from a Sign response with a \<^verbatim>\<open>Signature\<close> field, and its third
  segment is the whole unpadded base64url encoding of those bytes (decoding gives all of
  them back), which is not empty when there is at least one byte.
\<close>

theorem signJWTWithKMSKey_no_partial_token:
  "((\<exists>e. retrieveJWK pf (header_kid pf header) = Inl e)
      \<or> (\<exists>cmd e. sent (signJWTWithKMSKey client pf header payload) = [cmd]
             \<and> client cmd = Inl e)
      \<or> (\<exists>cmd. sent (signJWTWithKMSKey client pf header payload) = [cmd]
             \<and> client cmd = Inr None)
      \<or> (\<exists>cmd resp. sent (signJWTWithKMSKey client pf header payload) = [cmd]
             \<and> client cmd = Inr (Some resp) \<and> Signature resp = None)
    \<longrightarrow> (\<forall>token. outcome (signJWTWithKMSKey client pf header payload)
                   \<noteq> Returned (Some token)))
   \<and> (\<forall>token. outcome (signJWTWithKMSKey client pf header payload) = Returned (Some token)
        \<longrightarrow> (\<exists>cmd resp signature segment1 segment2.
               sent (signJWTWithKMSKey client pf header payload) = [cmd]
             \<and> client cmd = Inr (Some resp)
             \<and> Signature resp = Some signature
             \<and> split_on (CHR ''.'') token = [segment1, segment2, base64url_encode signature]
             \<and> base64url_decode (base64url_encode signature) = Some signature
             \<and> (signature \<noteq> [] \<longrightarrow> base64url_encode signature \<noteq> [])))"
proof (intro conjI impI allI)
  fix token
  assume "(\<exists>e. retrieveJWK pf (header_kid pf header) = Inl e)
      \<or> (\<exists>cmd e. sent (signJWTWithKMSKey client pf header payload) = [cmd]
             \<and> client cmd = Inl e)
      \<or> (\<exists>cmd. sent (signJWTWithKMSKey client pf header payload) = [cmd]
             \<and> client cmd = Inr None)
      \<or> (\<exists>cmd resp. sent (signJWTWithKMSKey client pf header payload) = [cmd]
             \<and> client cmd = Inr (Some resp) \<and> Signature resp = None)"
  then show "outcome (signJWTWithKMSKey client pf header payload) \<noteq> Returned (Some token)"
    by (rule sign_failure_no_token)
next
  fix token
  assume "outcome (signJWTWithKMSKey client pf header payload) = Returned (Some token)"
  then obtain header_json payload_json found resp signature where
    "JSON_stringify pf header = Inr header_json" and
    "JSON_stringify pf payload = Inr payload_json" and
    "retrieveJWK pf (header_kid pf header) = Inr found" and
    c: "client (SignCommand (kms_id found)
       (utf8_encode (base64url_encode (utf8_encode header_json) @ ''.''
          @ base64url_encode (utf8_encode payload_json)))
       ''RAW'' ''RSASSA_PKCS1_V1_5_SHA_256'') = Inr (Some resp)" and
    g: "Signature resp = Some signature" and
    t: "token = base64url_encode (utf8_encode header_json) @ ''.''
       @ base64url_encode (utf8_encode payload_json) @ ''.'' @ base64url_encode signature" and
    s: "sent (signJWTWithKMSKey client pf header payload) =
       [SignCommand (kms_id found)
         (utf8_encode (base64url_encode (utf8_encode header_json) @ ''.''
            @ base64url_encode (utf8_encode payload_json)))
         ''RAW'' ''RSASSA_PKCS1_V1_5_SHA_256'']"
    by (rule sign_returns_token)
  have "sent (signJWTWithKMSKey client pf header payload) =
       [SignCommand (kms_id found)
         (utf8_encode (base64url_encode (utf8_encode header_json) @ ''.''
            @ base64url_encode (utf8_encode payload_json)))
         ''RAW'' ''RSASSA_PKCS1_V1_5_SHA_256'']
     \<and> client (SignCommand (kms_id found)
       (utf8_encode (base64url_encode (utf8_encode header_json) @ ''.''
          @ base64url_encode (utf8_encode payload_json)))
       ''RAW'' ''RSASSA_PKCS1_V1_5_SHA_256'') = Inr (Some resp)
     \<and> Signature resp = Some signature
     \<and> split_on (CHR ''.'') token = [base64url_encode (utf8_encode header_json),
          base64url_encode (utf8_encode payload_json), base64url_encode signature]
     \<and> base64url_decode (base64url_encode signature) = Some signature
     \<and> (signature \<noteq> [] \<longrightarrow> base64url_encode signature \<noteq> [])"
    using c g s base64url_encode_nonempty [of signature] split_token base64url_decode_encode
    unfolding t by blast
  then show "\<exists>cmd resp signature segment1 segment2.
               sent (signJWTWithKMSKey client pf header payload) = [cmd]
             \<and> client cmd = Inr (Some resp)
             \<and> Signature resp = Some signature
             \<and> split_on (CHR ''.'') token = [segment1, segment2, base64url_encode signature]
             \<and> base64url_decode (base64url_encode signature) = Some signature
             \<and> (signature \<noteq> [] \<longrightarrow> base64url_encode signature \<noteq> [])"
    by (intro exI)
qed

theorem signJWTWithKMSKey_no_partial_token_witness:
  "(\<exists>cmd e. sent (signJWTWithKMSKey failing_client scenario_platform scenario_header
                     scenario_payload) = [cmd]
       \<and> failing_client cmd = Inl e)
   \<and> (\<forall>token. outcome (signJWTWithKMSKey failing_client scenario_platform scenario_header
                   scenario_payload) \<noteq> Returned (Some token))
   \<and> outcome (signJWTWithKMSKey stub_client scenario_platform scenario_header
        scenario_payload) = Returned (Some ''eyJraWQiOiJhYmMxMjMifQ.eyJzdWIiOiJ1c2VyMSJ9.qrvM'')
   \<and> (\<exists>cmd resp signature segment1 segment2.
          sent (signJWTWithKMSKey stub_client scenario_platform scenario_header
                  scenario_payload) = [cmd]
        \<and> stub_client cmd = Inr (Some resp)
        \<and> Signature resp = Some signature
        \<and> split_on (CHR ''.'') ''eyJraWQiOiJhYmMxMjMifQ.eyJzdWIiOiJ1c2VyMSJ9.qrvM''
            = [segment1, segment2, base64url_encode signature]
        \<and> base64url_decode (base64url_encode signature) = Some signature
        \<and> (signature \<noteq> [] \<and> base64url_encode signature \<noteq> []))"
proof -
  have fails: "\<exists>cmd e. sent (signJWTWithKMSKey failing_client scenario_platform
      scenario_header scenario_payload) = [cmd] \<and> failing_client cmd = Inl e"
    by (simp add: scenario_failing_run failing_client_def)
  have run: "outcome (signJWTWithKMSKey stub_client scenario_platform scenario_header
      scenario_payload) = Returned (Some ''eyJraWQiOiJhYmMxMjMifQ.eyJzdWIiOiJ1c2VyMSJ9.qrvM'')"
    by (simp add: scenario_B_run)
  have none: "\<forall>token. outcome (signJWTWithKMSKey failing_client scenario_platform
      scenario_header scenario_payload) \<noteq> Returned (Some token)"
    using fails
      signJWTWithKMSKey_no_partial_token [of scenario_platform scenario_header failing_client
        scenario_payload]
    by blast
  obtain cmd resp signature segment1 segment2 where
    w: "sent (signJWTWithKMSKey stub_client scenario_platform scenario_header
                  scenario_payload) = [cmd]"
       "stub_client cmd = Inr (Some resp)"
       "Signature resp = Some signature"
       "split_on (CHR ''.'') ''eyJraWQiOiJhYmMxMjMifQ.eyJzdWIiOiJ1c2VyMSJ9.qrvM''
            = [segment1, segment2, base64url_encode signature]"
       "base64url_decode (base64url_encode signature) = Some signature"
       "signature \<noteq> [] \<longrightarrow> base64url_encode signature \<noteq> []"
    using run
      signJWTWithKMSKey_no_partial_token [of scenario_platform scenario_header stub_client
        scenario_payload]
    by blast
  from w(1,2,3) have "signature = [0xAA, 0xBB, 0xCC]"
    by (auto simp: scenario_B_run stub_client_sign)
  then have "signature \<noteq> []" by simp
  with w fails none run show ?thesis by blast
qed

text \<open>
  C4 as stated fails where the Sign response carries a signature of length zero: the
  byte array is an object, so \<^verbatim>\<open>if (response?.Signature)\<close> lets it pass, and the token
  returned ends in a dot, with an empty signature segment.
\<close>

theorem signJWTWithKMSKey_empty_signature_counterexample:
  "zero_length_client
     (SignCommand ''kms-1'' (utf8_encode ''eyJraWQiOiJhYmMxMjMifQ.eyJzdWIiOiJ1c2VyMSJ9'')
        ''RAW'' ''RSASSA_PKCS1_V1_5_SHA_256'')
     = Inr (Some \<lparr>KeyMetadata = None, PublicKey = None, Signature = Some []\<rparr>)
   \<and> signJWTWithKMSKey zero_length_client scenario_platform scenario_header scenario_payload
     = \<lparr>outcome = Returned (Some ''eyJraWQiOiJhYmMxMjMifQ.eyJzdWIiOiJ1c2VyMSJ9.''),
        sent = [SignCommand ''kms-1''
                  (utf8_encode ''eyJraWQiOiJhYmMxMjMifQ.eyJzdWIiOiJ1c2VyMSJ9'') ''RAW''
                  ''RSASSA_PKCS1_V1_5_SHA_256''],
        logged = []\<rparr>
   \<and> split_on (CHR ''.'') ''eyJraWQiOiJhYmMxMjMifQ.eyJzdWIiOiJ1c2VyMSJ9.''
     = [''eyJraWQiOiJhYmMxMjMifQ'', ''eyJzdWIiOiJ1c2VyMSJ9'', '''']"
  by (simp add: scenario_zero_length_run zero_length_client_sign no_fields_def)

text \<open>
  C5, as the code has it. When the CreateKey command is rejected or answers without a
  (non-empty) key id, or the GetPublicKey command is rejected or answers without a
  \<^verbatim>\<open>PublicKey\<close> field, the call returns \<^verbatim>\<open>undefined\<close>. A record that is returned has a
  non-empty key id, and its PEM is the BEGIN PUBLIC KEY line, the padded base64 text of
  the key bytes and the END PUBLIC KEY line; that text is well-formed base64 and is not
  empty when there is at least one key byte. The call never throws.
\<close>

theorem createKMSKey_whole_or_nothing:
  "((\<exists>create rest e. sent (createKMSKey client pf alg) = create # rest
        \<and> client create = Inl e)
      \<or> (\<exists>create rest. sent (createKMSKey client pf alg) = create # rest
           \<and> (client create = Inr None
                \<or> (\<exists>resp. client create = Inr (Some resp)
                      \<and> (Option.bind (KeyMetadata resp) KeyId = None
                          \<or> Option.bind (KeyMetadata resp) KeyId = Some []))))
      \<or> (\<exists>create fetch e. sent (createKMSKey client pf alg) = [create, fetch]
           \<and> client fetch = Inl e)
      \<or> (\<exists>create fetch. sent (createKMSKey client pf alg) = [create, fetch]
           \<and> (client fetch = Inr None
                \<or> (\<exists>resp. client fetch = Inr (Some resp) \<and> PublicKey resp = None)))
    \<longrightarrow> outcome (createKMSKey client pf alg) = Returned None)
   \<and> (\<forall>key. outcome (createKMSKey client pf alg) = Returned (Some key)
        \<longrightarrow> (\<exists>create fetch resp key_bytes.
               sent (createKMSKey client pf alg) = [create, fetch]
             \<and> client fetch = Inr (Some resp)
             \<and> PublicKey resp = Some key_bytes
             \<and> keyId key \<noteq> []
             \<and> publicKey key
                 = ''-----BEGIN PUBLIC KEY-----'' @ ''\<newline>'' @ base64_encode key_bytes
                   @ ''\<newline>'' @ ''-----END PUBLIC KEY-----''
             \<and> valid_base64 (base64_encode key_bytes)
             \<and> (key_bytes \<noteq> [] \<longrightarrow> base64_encode key_bytes \<noteq> [])))
   \<and> (\<forall>e. outcome (createKMSKey client pf alg) \<noteq> Thrown e)"
proof (intro conjI impI allI)
  assume "(\<exists>create rest e. sent (createKMSKey client pf alg) = create # rest
        \<and> client create = Inl e)
      \<or> (\<exists>create rest. sent (createKMSKey client pf alg) = create # rest
           \<and> (client create = Inr None
                \<or> (\<exists>resp. client create = Inr (Some resp)
                      \<and> (Option.bind (KeyMetadata resp) KeyId = None
                          \<or> Option.bind (KeyMetadata resp) KeyId = Some []))))
      \<or> (\<exists>create fetch e. sent (createKMSKey client pf alg) = [create, fetch]
           \<and> client fetch = Inl e)
      \<or> (\<exists>create fetch. sent (createKMSKey client pf alg) = [create, fetch]
           \<and> (client fetch = Inr None
                \<or> (\<exists>resp. client fetch = Inr (Some resp) \<and> PublicKey resp = None)))"
  then show "outcome (createKMSKey client pf alg) = Returned None"
    by (rule create_failure_no_key)
next
  fix key
  assume "outcome (createKMSKey client pf alg) = Returned (Some key)"
  then obtain policy created key_id fetched key_bytes where
    "client (CreateKeyCommand alg ''SIGN_VERIFY''
       (''Developer Portal JWK for Sign in with Worldcoin. Created: ''
          @ Date_now_toISOString pf)
       policy [(''app'', ''developer-portal'')]) = Inr (Some created)" and
    "Option.bind (KeyMetadata created) KeyId = Some key_id" and
    n: "key_id \<noteq> []" and
    f: "client (GetPublicKeyCommand key_id) = Inr (Some fetched)" and
    b: "PublicKey fetched = Some key_bytes" and
    k: "key = \<lparr>keyId = key_id,
            publicKey = pem_header @ ''\<newline>'' @ base64_encode key_bytes @ ''\<newline>''
              @ pem_footer\<rparr>" and
    s: "sent (createKMSKey client pf alg) =
       [CreateKeyCommand alg ''SIGN_VERIFY''
          (''Developer Portal JWK for Sign in with Worldcoin. Created: ''
             @ Date_now_toISOString pf)
          policy [(''app'', ''developer-portal'')],
        GetPublicKeyCommand key_id]"
    by (rule create_returns_key)
  have p: "publicKey key
      = ''-----BEGIN PUBLIC KEY-----'' @ ''\<newline>'' @ base64_encode key_bytes
        @ ''\<newline>'' @ ''-----END PUBLIC KEY-----''"
    unfolding k by (simp add: pem_header_def pem_footer_def)
  have i: "keyId key \<noteq> []"
    unfolding k using n by simp
  show "\<exists>create fetch resp key_bytes.
               sent (createKMSKey client pf alg) = [create, fetch]
             \<and> client fetch = Inr (Some resp)
             \<and> PublicKey resp = Some key_bytes
             \<and> keyId key \<noteq> []
             \<and> publicKey key
                 = ''-----BEGIN PUBLIC KEY-----'' @ ''\<newline>'' @ base64_encode key_bytes
                   @ ''\<newline>'' @ ''-----END PUBLIC KEY-----''
             \<and> valid_base64 (base64_encode key_bytes)
             \<and> (key_bytes \<noteq> [] \<longrightarrow> base64_encode key_bytes \<noteq> [])"
    using s f b i p valid_base64_encode [of key_bytes] base64_encode_nonempty [of key_bytes]
    by blast
next
  fix e
  show "outcome (createKMSKey client pf alg) \<noteq> Thrown e"
    by (rule create_never_throws)
qed

theorem createKMSKey_whole_or_nothing_witness:
  "(\<exists>create rest e. sent (createKMSKey failing_client scenario_platform ''RSA_2048'')
        = create # rest \<and> failing_client create = Inl e)
   \<and> outcome (createKMSKey failing_client scenario_platform ''RSA_2048'') = Returned None
   \<and> outcome (createKMSKey stub_client scenario_platform ''RSA_2048'') =
       Returned (Some \<lparr>keyId = ''abc123'',
         publicKey =
           ''-----BEGIN PUBLIC KEY-----\<newline>MIIBIg==\<newline>-----END PUBLIC KEY-----''\<rparr>)
   \<and> (\<exists>create fetch resp key_bytes.
          sent (createKMSKey stub_client scenario_platform ''RSA_2048'') = [create, fetch]
        \<and> stub_client fetch = Inr (Some resp)
        \<and> PublicKey resp = Some key_bytes
        \<and> ''-----BEGIN PUBLIC KEY-----\<newline>MIIBIg==\<newline>-----END PUBLIC KEY-----''
            = ''-----BEGIN PUBLIC KEY-----'' @ ''\<newline>'' @ base64_encode key_bytes
              @ ''\<newline>'' @ ''-----END PUBLIC KEY-----''
        \<and> valid_base64 (base64_encode key_bytes))"
proof -
  have fails: "\<exists>create rest e. sent (createKMSKey failing_client scenario_platform
      ''RSA_2048'') = create # rest \<and> failing_client create = Inl e"
    by (simp add: scenario_create_failing_run failing_client_def)
  have none: "outcome (createKMSKey failing_client scenario_platform ''RSA_2048'')
      = Returned None"
    using fails
      createKMSKey_whole_or_nothing [of failing_client scenario_platform "''RSA_2048''"]
    by blast
  have "\<exists>create fetch resp key_bytes.
          sent (createKMSKey stub_client scenario_platform ''RSA_2048'') = [create, fetch]
        \<and> stub_client fetch = Inr (Some resp)
        \<and> PublicKey resp = Some key_bytes
        \<and> keyId \<lparr>keyId = ''abc123'',
             publicKey =
               ''-----BEGIN PUBLIC KEY-----\<newline>MIIBIg==\<newline>-----END PUBLIC KEY-----''\<rparr> \<noteq> []
        \<and> publicKey \<lparr>keyId = ''abc123'',
             publicKey =
               ''-----BEGIN PUBLIC KEY-----\<newline>MIIBIg==\<newline>-----END PUBLIC KEY-----''\<rparr>
            = ''-----BEGIN PUBLIC KEY-----'' @ ''\<newline>'' @ base64_encode key_bytes
              @ ''\<newline>'' @ ''-----END PUBLIC KEY-----''
        \<and> valid_base64 (base64_encode key_bytes)
        \<and> (key_bytes \<noteq> [] \<longrightarrow> base64_encode key_bytes \<noteq> [])"
    using scenario_create_run
      createKMSKey_whole_or_nothing [of stub_client scenario_platform "''RSA_2048''"]
    by blast
  then have "\<exists>create fetch resp key_bytes.
          sent (createKMSKey stub_client scenario_platform ''RSA_2048'') = [create, fetch]
        \<and> stub_client fetch = Inr (Some resp)
        \<and> PublicKey resp = Some key_bytes
        \<and> ''-----BEGIN PUBLIC KEY-----\<newline>MIIBIg==\<newline>-----END PUBLIC KEY-----''
            = ''-----BEGIN PUBLIC KEY-----'' @ ''\<newline>'' @ base64_encode key_bytes
              @ ''\<newline>'' @ ''-----END PUBLIC KEY-----''
        \<and> valid_base64 (base64_encode key_bytes)"
    unfolding create_key_result.simps by blast
  with fails none scenario_create_run show ?thesis by blast
qed

text \<open>
  C5 as stated fails where GetPublicKey answers with a key of length zero: the byte
  array is an object, so \<^verbatim>\<open>if (PublicKey)\<close> lets it pass, and the record returned has a PEM
  with an empty body.
\<close>

theorem createKMSKey_empty_key_counterexample:
  "zero_length_client (GetPublicKeyCommand ''abc123'')
     = Inr (Some \<lparr>KeyMetadata = None, PublicKey = Some [], Signature = None\<rparr>)
   \<and> outcome (createKMSKey zero_length_client scenario_platform ''RSA_2048'')
     = Returned (Some \<lparr>keyId = ''abc123'',
         publicKey = ''-----BEGIN PUBLIC KEY-----\<newline>\<newline>-----END PUBLIC KEY-----''\<rparr>)
   \<and> sent (createKMSKey zero_length_client scenario_platform ''RSA_2048'')
     = [CreateKeyCommand ''RSA_2048'' ''SIGN_VERIFY''
          ''Developer Portal JWK for Sign in with Worldcoin. Created: 2024-01-01T00:00:00.000Z''
          (policy_text ''arn:aws:iam::123456789012:role/kms'' ''2024-03-31T00:00:00.000Z'')
          [(''app'', ''developer-portal'')],
        GetPublicKeyCommand ''abc123'']"
  by (simp add: scenario_create_zero_length_run zero_length_client_def no_fields_def)

text \<open>
  C2, as the code has it. \<open>scheduleKeyDeletion\<close> sends one ScheduleKeyDeletion command and
  resolves to \<^verbatim>\<open>undefined\<close> whether the command is rejected or not; a rejection is caught
  and written to the error log with the error, nothing is written on success, and
  nothing is thrown to the caller.
\<close>

theorem scheduleKeyDeletion_result:
  "outcome (scheduleKeyDeletion client key_id) = Returned ()
   \<and> sent (scheduleKeyDeletion client key_id) = [ScheduleKeyDeletionCommand key_id 7]
   \<and> (\<forall>e. client (ScheduleKeyDeletionCommand key_id 7) = Inl e
         \<longrightarrow> logged (scheduleKeyDeletion client key_id)
               = [(''Error scheduling key deletion:'', e)])
   \<and> (\<forall>ack. client (ScheduleKeyDeletionCommand key_id 7) = Inr ack
         \<longrightarrow> logged (scheduleKeyDeletion client key_id) = [])"
  by (simp add: scheduleKeyDeletion_def Let_def split: sum.splits)

theorem scheduleKeyDeletion_result_witness:
  "failing_client (ScheduleKeyDeletionCommand ''key-1'' 7)
     = Inl (ServiceError ''AccessDeniedException'')
   \<and> outcome (scheduleKeyDeletion failing_client ''key-1'') = Returned ()
   \<and> sent (scheduleKeyDeletion failing_client ''key-1'')
     = [ScheduleKeyDeletionCommand ''key-1'' 7]
   \<and> logged (scheduleKeyDeletion failing_client ''key-1'')
     = [(''Error scheduling key deletion:'', ServiceError ''AccessDeniedException'')]"
proof -
  have rejected: "failing_client (ScheduleKeyDeletionCommand ''key-1'' 7)
      = Inl (ServiceError ''AccessDeniedException'')"
    by (simp add: failing_client_def)
  show ?thesis
    using rejected scheduleKeyDeletion_result [of failing_client "''key-1''"]
    by blast
qed

text \<open>
  C2 as stated fails: one client rejects the command and another accepts it, and the two
  calls hand the same value to their caller.
\<close>

theorem scheduleKeyDeletion_swallows_counterexample:
  "failing_client (ScheduleKeyDeletionCommand ''key-1'' 7)
     = Inl (ServiceError ''AccessDeniedException'')
   \<and> stub_client (ScheduleKeyDeletionCommand ''key-1'' 7)
     = Inr (Some \<lparr>KeyMetadata = None, PublicKey = None, Signature = None\<rparr>)
   \<and> outcome (scheduleKeyDeletion failing_client ''key-1'') = Returned ()
   \<and> outcome (scheduleKeyDeletion stub_client ''key-1'') = Returned ()"
  by (simp add: scheduleKeyDeletion_def Let_def failing_client_def stub_client_def no_fields_def)



text \<open>
  C7. When the DescribeKey command is rejected, or resolves to no response object,
  \<open>getKMSKeyStatus\<close> returns \<^verbatim>\<open>undefined\<close> and logs the error; it never throws. A boolean
  reaches the caller only from a response that carries key metadata with that value in
  its \<^verbatim>\<open>Enabled\<close> field.
\<close>

theorem getKMSKeyStatus_failure_is_undefined:
  "(\<forall>e. client (DescribeKeyCommand key_id) = Inl e
       \<longrightarrow> outcome (getKMSKeyStatus client key_id) = Returned None
         \<and> logged (getKMSKeyStatus client key_id) = [(''Error describing key:'', e)])
   \<and> (client (DescribeKeyCommand key_id) = Inr None
       \<longrightarrow> outcome (getKMSKeyStatus client key_id) = Returned None
         \<and> logged (getKMSKeyStatus client key_id) = [(''Error describing key:'', TypeError)])
   \<and> (\<forall>enabled. outcome (getKMSKeyStatus client key_id) = Returned (Some enabled)
       \<longrightarrow> (\<exists>described metadata.
              client (DescribeKeyCommand key_id) = Inr (Some described)
            \<and> KeyMetadata described = Some metadata
            \<and> Enabled metadata = Some enabled))
   \<and> (\<forall>e. outcome (getKMSKeyStatus client key_id) \<noteq> Thrown e)"
  by (auto simp: getKMSKeyStatus_def Let_def Option.bind_eq_Some_conv split: sum.splits option.splits)

theorem getKMSKeyStatus_failure_is_undefined_witness:
  "failing_client (DescribeKeyCommand ''key-1'') = Inl (ServiceError ''AccessDeniedException'')
   \<and> outcome (getKMSKeyStatus failing_client ''key-1'') = Returned None
   \<and> logged (getKMSKeyStatus failing_client ''key-1'')
     = [(''Error describing key:'', ServiceError ''AccessDeniedException'')]
   \<and> outcome (getKMSKeyStatus stub_client ''key-1'') = Returned (Some True)
   \<and> (\<exists>described metadata.
          stub_client (DescribeKeyCommand ''key-1'') = Inr (Some described)
        \<and> KeyMetadata described = Some metadata
        \<and> Enabled metadata = Some True)"
proof -
  have rejected: "failing_client (DescribeKeyCommand ''key-1'')
      = Inl (ServiceError ''AccessDeniedException'')"
    by (simp add: failing_client_def)
  have enabled: "outcome (getKMSKeyStatus stub_client ''key-1'') = Returned (Some True)"
    by (simp add: getKMSKeyStatus_def Let_def stub_client_def no_fields_def)
  show ?thesis
    using rejected enabled
      getKMSKeyStatus_failure_is_undefined [of failing_client "''key-1''"]
      getKMSKeyStatus_failure_is_undefined [of stub_client "''key-1''"]
    by blast
qed

text \<open>
  C10. When the DescribeKey command succeeds with a response that has no key metadata,
  or metadata without an \<^verbatim>\<open>Enabled\<close> field, \<open>getKMSKeyStatus\<close> returns \<^verbatim>\<open>undefined\<close> and logs
  nothing; the value returned is the one a rejected command gives.
\<close>

theorem getKMSKeyStatus_absent_on_success:
  assumes "client (DescribeKeyCommand key_id) = Inr (Some described)"
      and "KeyMetadata described = None
         \<or> (\<exists>metadata. KeyMetadata described = Some metadata \<and> Enabled metadata = None)"
      and "rejecting (DescribeKeyCommand key_id) = Inl e"
  shows "outcome (getKMSKeyStatus client key_id) = Returned None
       \<and> logged (getKMSKeyStatus client key_id) = []
       \<and> outcome (getKMSKeyStatus rejecting key_id) = outcome (getKMSKeyStatus client key_id)"
  using assms by (auto simp: getKMSKeyStatus_def Let_def)

theorem getKMSKeyStatus_absent_on_success_witness:
  "bare_client (DescribeKeyCommand ''key-1'')
     = Inr (Some \<lparr>KeyMetadata = None, PublicKey = None, Signature = None\<rparr>)
   \<and> failing_client (DescribeKeyCommand ''key-1'')
     = Inl (ServiceError ''AccessDeniedException'')
   \<and> outcome (getKMSKeyStatus bare_client ''key-1'') = Returned None
   \<and> logged (getKMSKeyStatus bare_client ''key-1'') = []
   \<and> outcome (getKMSKeyStatus failing_client ''key-1'')
     = outcome (getKMSKeyStatus bare_client ''key-1'')"
proof -
  have answered: "bare_client (DescribeKeyCommand ''key-1'')
      = Inr (Some \<lparr>KeyMetadata = None, PublicKey = None, Signature = None\<rparr>)"
    by (simp add: bare_client_def no_fields_def)
  have absent: "KeyMetadata \<lparr>KeyMetadata = None, PublicKey = None, Signature = None\<rparr> = None
      \<or> (\<exists>metadata. KeyMetadata \<lparr>KeyMetadata = None, PublicKey = None, Signature = None\<rparr>
            = Some metadata \<and> Enabled metadata = None)"
    by simp
  have rejected: "failing_client (DescribeKeyCommand ''key-1'')
      = Inl (ServiceError ''AccessDeniedException'')"
    by (simp add: failing_client_def)
  show ?thesis
    using answered rejected
      getKMSKeyStatus_absent_on_success
        [where client = bare_client and rejecting = failing_client, OF answered absent rejected]
    by blast
qed

text \<open>
  C3, as the code has it. Take a valid instant and a role ARN in the environment that
  holds no double quote, backslash or control character (an unset one reads
  \<^verbatim>\<open>undefined\<close>). Then \<open>kmsKeyPolicy\<close> returns a document that reads back as JSON: one
  statement that allows, for the one principal that is the role ARN, exactly the eight
  actions CreateKey, TagResource, DescribeKey, PutKeyPolicy, GetPublicKey, Sign, Verify
  and ScheduleKeyDeletion on every resource, under the condition \<^verbatim>\<open>DateLessThan\<close> on
  \<^verbatim>\<open>aws:CurrentTime\<close> whose value is the ISO-8601 text of the instant in UTC, to the
  millisecond. No other instant gives the same document, and the same instant always
  does.
\<close>

theorem kmsKeyPolicy_document:
  assumes "plain_text (interpolate (AWS_KMS_ROLE_ARN pf))"
      and "\<bar>t\<bar> \<le> 8640000000000000"
  shows "\<exists>document.
           kmsKeyPolicy pf (Some t) = Inr document
         \<and> JSON_parse document =
             Some (JObject
               [(''Version'', JString ''2012-10-17''),
                (''Id'', JString ''key-default-1''),
                (''Statement'', JArray
                  [JObject
                    [(''Sid'', JString ''AllowAccessUntilExpirationDate''),
                     (''Effect'', JString ''Allow''),
                     (''Principal'', JObject
                       [(''AWS'', JString (interpolate (AWS_KMS_ROLE_ARN pf)))]),
                     (''Action'', JArray
                       [JString ''kms:CreateKey'', JString ''kms:TagResource'',
                        JString ''kms:DescribeKey'', JString ''kms:PutKeyPolicy'',
                        JString ''kms:GetPublicKey'', JString ''kms:Sign'',
                        JString ''kms:Verify'', JString ''kms:ScheduleKeyDeletion'']),
                     (''Resource'', JString ''*''),
                     (''Condition'', JObject
                       [(''DateLessThan'', JObject
                          [(''aws:CurrentTime'', JString (iso_text t))])])]])])
         \<and> (\<forall>other. kmsKeyPolicy pf other = Inr document \<longleftrightarrow> other = Some t)"
proof -
  let ?arn = "interpolate (AWS_KMS_ROLE_ARN pf)"
  have rendered: "toISOString (Some t) = Inr (iso_text t)"
    using assms(2) by (simp add: toISOString_def)
  have doc: "kmsKeyPolicy pf (Some t) = Inr (policy_text ?arn (iso_text t))"
    by (simp add: kmsKeyPolicy_def rendered)
  have same: "kmsKeyPolicy pf other = Inr (policy_text ?arn (iso_text t))
      \<longleftrightarrow> other = Some t" for other
  proof
    assume "kmsKeyPolicy pf other = Inr (policy_text ?arn (iso_text t))"
    then have "toISOString other = Inr (iso_text t)"
      by (cases "toISOString other") (simp_all add: kmsKeyPolicy_def policy_text_inject)
    then show "other = Some t"
      using rendered by (rule toISOString_inj)
  next
    assume "other = Some t"
    then show "kmsKeyPolicy pf other = Inr (policy_text ?arn (iso_text t))"
      using doc by simp
  qed
  show ?thesis
    using doc policy_text_parse [OF assms(1) plain_iso_text [of t]] same by blast
qed

theorem kmsKeyPolicy_document_witness:
  "plain_text (interpolate (AWS_KMS_ROLE_ARN scenario_platform))
   \<and> \<bar>951827696789 :: int\<bar> \<le> 8640000000000000
   \<and> interpolate (AWS_KMS_ROLE_ARN scenario_platform) = ''arn:aws:iam::123456789012:role/kms''
   \<and> iso_text 951827696789 = ''2000-02-29T12:34:56.789Z''
   \<and> (\<exists>document.
          kmsKeyPolicy scenario_platform (Some 951827696789) = Inr document
        \<and> JSON_parse document =
            Some (JObject
              [(''Version'', JString ''2012-10-17''),
               (''Id'', JString ''key-default-1''),
               (''Statement'', JArray
                 [JObject
                   [(''Sid'', JString ''AllowAccessUntilExpirationDate''),
                    (''Effect'', JString ''Allow''),
                    (''Principal'', JObject
                      [(''AWS'', JString (interpolate (AWS_KMS_ROLE_ARN scenario_platform)))]),
                    (''Action'', JArray
                      [JString ''kms:CreateKey'', JString ''kms:TagResource'',
                       JString ''kms:DescribeKey'', JString ''kms:PutKeyPolicy'',
                       JString ''kms:GetPublicKey'', JString ''kms:Sign'',
                       JString ''kms:Verify'', JString ''kms:ScheduleKeyDeletion'']),
                    (''Resource'', JString ''*''),
                    (''Condition'', JObject
                      [(''DateLessThan'', JObject
                         [(''aws:CurrentTime'', JString (iso_text 951827696789))])])]])]))"
proof -
  have arn: "interpolate (AWS_KMS_ROLE_ARN scenario_platform)
      = ''arn:aws:iam::123456789012:role/kms''"
    by (simp add: scenario_platform_def interpolate_def)
  have principal: "plain_text (interpolate (AWS_KMS_ROLE_ARN scenario_platform))"
    unfolding arn by (simp add: plain_text_def plain_char_def)
  have valid: "\<bar>951827696789 :: int\<bar> \<le> 8640000000000000"
    by simp
  have rendering: "iso_text 951827696789 = ''2000-02-29T12:34:56.789Z''"
    by code_simp
  show ?thesis
    using principal valid arn rendering kmsKeyPolicy_document [OF principal valid]
    by blast
qed

text \<open>
  C3 as stated fails for a role ARN that holds a double quote: the template writes the
  ARN between quotes as it is, and the text returned is not a JSON document.
\<close>

theorem kmsKeyPolicy_unescaped_counterexample:
  \<open>AWS_KMS_ROLE_ARN unescaped_platform = Some ''arn:aws:iam::123456789012:role/a"b''
   \<and> kmsKeyPolicy unescaped_platform (Some 1711843200000)
     = Inr (policy_text ''arn:aws:iam::123456789012:role/a"b'' ''2024-03-31T00:00:00.000Z'')
   \<and> JSON_parse (policy_text ''arn:aws:iam::123456789012:role/a"b''
         ''2024-03-31T00:00:00.000Z'') = None\<close>
  using unescaped_policy unescaped_policy_rejected
  by (simp add: unescaped_platform_def)

end
